theory Spec2Isabelle
  imports Complex_Main "HOL-Library.Sublist"
begin

section \<open>Bytes, text and the library functions the framing code calls\<close>

text \<open>
  A Python \<open>bytes\<close> value is a list of 8-bit characters; a Python \<open>str\<close> is a list of
  Unicode code points (natural numbers).
\<close>

type_synonym bytes = "char list"
type_synonym pystr = "nat list"

definition ustr :: "string \<Rightarrow> pystr" where
  "ustr s = map of_char s"

definition CRLFCRLF :: bytes where
  "CRLFCRLF = [CHR 0x0D, CHR 0x0A, CHR 0x0D, CHR 0x0A]"

text \<open>
  \<open>buffer.find(sub)\<close>: the lowest index at which \<open>sub\<close> occurs, \<open>None\<close> standing for
  Python's \<open>-1\<close>.
\<close>

fun bytes_find :: "bytes \<Rightarrow> bytes \<Rightarrow> nat option" where
  "bytes_find [] sub = (if sub = [] then Some 0 else None)"
| "bytes_find (c # cs) sub =
     (if prefix sub (c # cs) then Some 0 else map_option Suc (bytes_find cs sub))"

text \<open>
  \<open>header_bytes.decode("utf-8", errors="ignore")\<close>. A well-formed UTF-8 sequence at the
  head of the input yields its code point; any other leading byte is dropped and decoding
  goes on with the next byte.
\<close>

definition cont_byte :: "nat \<Rightarrow> bool" where
  "cont_byte b \<longleftrightarrow> 128 \<le> b \<and> b \<le> 191"

fun utf8_head :: "nat list \<Rightarrow> (nat \<times> nat) option" where
  "utf8_head [] = None"
| "utf8_head (b # bs) =
     (if b < 128 then Some (b, 0)
      else if 194 \<le> b \<and> b \<le> 223 then
        (case bs of
           b1 # _ \<Rightarrow>
             if cont_byte b1 then Some ((b - 192) * 64 + (b1 - 128), 1) else None
         | _ \<Rightarrow> None)
      else if 224 \<le> b \<and> b \<le> 239 then
        (case bs of
           b1 # b2 # _ \<Rightarrow>
             if (if b = 224 then 160 else 128) \<le> b1 \<and> b1 \<le> (if b = 237 then 159 else 191)
                \<and> cont_byte b2
             then Some ((b - 224) * 4096 + (b1 - 128) * 64 + (b2 - 128), 2) else None
         | _ \<Rightarrow> None)
      else if 240 \<le> b \<and> b \<le> 244 then
        (case bs of
           b1 # b2 # b3 # _ \<Rightarrow>
             if (if b = 240 then 144 else 128) \<le> b1 \<and> b1 \<le> (if b = 244 then 143 else 191)
                \<and> cont_byte b2 \<and> cont_byte b3
             then Some ((b - 240) * 262144 + (b1 - 128) * 4096 + (b2 - 128) * 64 + (b3 - 128), 3)
             else None
         | _ \<Rightarrow> None)
      else None)"

fun utf8_decode_ignore :: "nat list \<Rightarrow> pystr" where
  "utf8_decode_ignore [] = []"
| "utf8_decode_ignore (b # bs) =
     (case utf8_head (b # bs) of
        Some (cp, k) \<Rightarrow> cp # utf8_decode_ignore (drop k bs)
      | None \<Rightarrow> utf8_decode_ignore bs)"

definition decode_header :: "bytes \<Rightarrow> pystr" where
  "decode_header hb = utf8_decode_ignore (map of_char hb)"

text \<open>
  The character classes of \<open>re\<close> on \<open>str\<close> patterns: \<open>\s\<close> is Unicode white space, \<open>\d\<close> is
  a Unicode decimal digit (category Nd). Decimal digits come in runs of ten starting at a
  zero digit; \<open>nd_zeros\<close> lists those zero digits (Unicode 14.0.0, the table of CPython 3.11).
\<close>

definition is_space :: "nat \<Rightarrow> bool" where
  "is_space c \<longleftrightarrow>
     (9 \<le> c \<and> c \<le> 13) \<or> (28 \<le> c \<and> c \<le> 32) \<or> c = 133 \<or> c = 160 \<or> c = 5760
     \<or> (8192 \<le> c \<and> c \<le> 8202) \<or> c = 8232 \<or> c = 8233 \<or> c = 8239 \<or> c = 8287
     \<or> c = 12288"

definition nd_zeros :: "nat list" where
  "nd_zeros =
     [0x30, 0x660, 0x6f0, 0x7c0, 0x966, 0x9e6, 0xa66, 0xae6, 0xb66, 0xbe6, 0xc66, 0xce6,
      0xd66, 0xde6, 0xe50, 0xed0, 0xf20, 0x1040, 0x1090, 0x17e0, 0x1810, 0x1946, 0x19d0,
      0x1a80, 0x1a90, 0x1b50, 0x1bb0, 0x1c40, 0x1c50, 0xa620, 0xa8d0, 0xa900, 0xa9d0,
      0xa9f0, 0xaa50, 0xabf0, 0xff10, 0x104a0, 0x10d30, 0x11066, 0x110f0, 0x11136,
      0x111d0, 0x112f0, 0x11450, 0x114d0, 0x11650, 0x116c0, 0x11730, 0x118e0, 0x11950,
      0x11c50, 0x11d50, 0x11da0, 0x16a60, 0x16ac0, 0x16b50, 0x1d7ce, 0x1d7d8, 0x1d7e2,
      0x1d7ec, 0x1d7f6, 0x1e140, 0x1e2f0, 0x1e950, 0x1fbf0]"

definition decimal_value :: "nat \<Rightarrow> nat option" where
  "decimal_value c = map_option (\<lambda>z. c - z) (find (\<lambda>z. z \<le> c \<and> c \<le> z + 9) nd_zeros)"

definition is_digit :: "nat \<Rightarrow> bool" where
  "is_digit c \<longleftrightarrow> decimal_value c \<noteq> None"

text \<open>
  \<open>int(s)\<close> on a non-empty string of decimal digits. Integers are unbounded; the
  interpreter's optional limit on the number of digits of a conversion is not modelled.
\<close>

definition int_of_digits :: "pystr \<Rightarrow> nat" where
  "int_of_digits ds = foldl (\<lambda>a c. 10 * a + (case decimal_value c of Some v \<Rightarrow> v | None \<Rightarrow> 0)) 0 ds"

text \<open>
  \<open>re.search(r"Content-Length:\s*(\d+)", header_text, flags=re.IGNORECASE)\<close>, returning
  group 1. The literal part matches case-insensitively; for the letters of this pattern the
  only characters that match are the ASCII upper- and lower-case forms. \<open>\s*\<close> and \<open>\d+\<close>
  are greedy, and since no character is both a space and a digit, backtracking into \<open>\s*\<close>
  never produces a match that the greedy choice misses. The search returns the match at
  the leftmost position that has one.
\<close>

definition ci_eq :: "nat \<Rightarrow> nat \<Rightarrow> bool" where
  "ci_eq p c \<longleftrightarrow> c = p \<or> (97 \<le> p \<and> p \<le> 122 \<and> c + 32 = p)"

fun ci_prefix :: "pystr \<Rightarrow> pystr \<Rightarrow> bool" where
  "ci_prefix [] s = True"
| "ci_prefix (p # ps) [] = False"
| "ci_prefix (p # ps) (c # cs) = (ci_eq p c \<and> ci_prefix ps cs)"

definition cl_literal :: pystr where
  "cl_literal = ustr ''content-length:''"

definition match_here :: "pystr \<Rightarrow> pystr option" where
  "match_here s =
     (if ci_prefix cl_literal s then
        (let ds = takeWhile is_digit (dropWhile is_space (drop (length cl_literal) s))
         in if ds = [] then None else Some ds)
      else None)"

fun re_search :: "pystr \<Rightarrow> pystr option" where
  "re_search [] = match_here []"
| "re_search (c # cs) =
     (case match_here (c # cs) of Some ds \<Rightarrow> Some ds | None \<Rightarrow> re_search cs)"

definition content_length :: "bytes \<Rightarrow> nat option" where
  "content_length header_bytes = map_option int_of_digits (re_search (decode_header header_bytes))"

section \<open>The frame encoder\<close>

text \<open>\<open>str(n)\<close> for a non-negative integer, as the f-string of \<open>_mcp_write\<close> formats it.\<close>

definition digit_char :: "nat \<Rightarrow> char" where
  "digit_char d = char_of (48 + d)"

fun str_nat :: "nat \<Rightarrow> string" where
  "str_nat n = (if n < 10 then [digit_char n] else str_nat (n div 10) @ [digit_char (n mod 10)])"

declare str_nat.simps [simp del]

text \<open>
  \<open>_mcp_write\<close> writes the header and then the payload to standard output; \<open>mcp_frame\<close> is
  the byte sequence written for a payload.
\<close>

definition mcp_header :: "bytes \<Rightarrow> bytes" where
  "mcp_header payload = ''Content-Length: '' @ str_nat (length payload)"

definition mcp_frame :: "bytes \<Rightarrow> bytes" where
  "mcp_frame payload = mcp_header payload @ CRLFCRLF @ payload"

section \<open>The decode loop of \<open>run_mcp_stdio\<close>\<close>

text \<open>
  The inner \<open>while True\<close> loop over the read buffer. It returns the bodies it cut out of
  the buffer, in order, and the buffer it leaves behind when it breaks.
\<close>

function process_buffer :: "bytes \<Rightarrow> bytes list \<times> bytes" where
  "process_buffer buffer =
     (case bytes_find buffer CRLFCRLF of
        None \<Rightarrow> ([], buffer)
      | Some header_end \<Rightarrow>
          (case content_length (take header_end buffer) of
             None \<Rightarrow> process_buffer (drop (header_end + 4) buffer)
           | Some n \<Rightarrow>
               (let body_start = header_end + 4; body_end = body_start + n
                in if length buffer < body_end then ([], buffer)
                   else (let r = process_buffer (drop body_end buffer)
                         in (take n (drop body_start buffer) # fst r, snd r)))))"
  by pat_completeness auto

termination process_buffer
proof (relation "measure length")
  have len: "length CRLFCRLF = 4" by (simp add: CRLFCRLF_def)
  have bound: "i + 4 \<le> length buf" if "bytes_find buf CRLFCRLF = Some i" for buf i
    using that
  proof (induction buf arbitrary: i)
    case Nil
    then show ?case by (simp add: CRLFCRLF_def)
  next
    case (Cons c cs)
    show ?case
    proof (cases "prefix CRLFCRLF (c # cs)")
      case True
      from Cons.prems True have "i = 0" by simp
      with prefix_length_le [OF True] show ?thesis by (simp add: len)
    next
      case False
      with Cons.prems obtain j where "bytes_find cs CRLFCRLF = Some j" "i = Suc j" by auto
      with Cons.IH show ?thesis by fastforce
    qed
  qed
  show "wf (measure length)" by simp
  show "(drop (header_end + 4) buffer, buffer) \<in> measure length"
    if "bytes_find buffer CRLFCRLF = Some header_end" for buffer header_end
    using bound [OF that] by simp
  show "(drop body_end buffer, buffer) \<in> measure length"
    if "bytes_find buffer CRLFCRLF = Some header_end"
      and "body_start = header_end + 4" and "body_end = body_start + n"
      and "\<not> length buffer < body_end"
    for buffer header_end n body_start body_end
    using bound [OF that(1)] that(2-4) by simp
qed

declare process_buffer.simps [simp del]

text \<open>
  The outer read loop. Standard input is the list of chunks that successive reads return;
  an empty chunk, or the end of the list, is end of stream, where the loop returns.
\<close>

fun read_loop :: "bytes \<Rightarrow> bytes list \<Rightarrow> bytes list" where
  "read_loop buffer [] = []"
| "read_loop buffer (chunk # chunks) =
     (if chunk = [] then []
      else (let r = process_buffer (buffer @ chunk)
            in fst r @ read_loop (snd r) chunks))"

section \<open>Python values and exceptions\<close>

text \<open>
  The values that \<open>json.loads\<close> produces and that the handlers build: \<open>None\<close>, booleans,
  unbounded integers, floats, strings, lists and dictionaries. A dictionary is an
  association list read with \<open>map_of\<close>. A float is a real number or one of the three
  special values; float arithmetic is left to the runtime (see \<open>runtime\<close> below).
\<close>

datatype pyfloat = Finite real | PosInf | NegInf | NaN

datatype json =
    JNull
  | JBool bool
  | JInt int
  | JFloat pyfloat
  | JStr pystr
  | JArr "json list"
  | JObj "(pystr \<times> json) list"

text \<open>
  An exception is its class and the text \<open>str(exc)\<close>. \<open>RequestException\<close> stands for every
  instance of \<open>requests.RequestException\<close>, subclasses included. All classes here derive
  from \<open>Exception\<close>.
\<close>

datatype exc_class =
  RequestException | ValueError | RuntimeError | TypeError | AttributeError | KeyError
  | IndexError | OverflowError | OtherException

datatype exc = Exc exc_class pystr

fun is_request_exception :: "exc \<Rightarrow> bool" where
  "is_request_exception (Exc c m) = (c = RequestException)"

fun exc_str :: "exc \<Rightarrow> pystr" where
  "exc_str (Exc c m) = m"

definition bindE :: "exc + 'a \<Rightarrow> ('a \<Rightarrow> exc + 'b) \<Rightarrow> exc + 'b" where
  "bindE m f = (case m of Inl e \<Rightarrow> Inl e | Inr x \<Rightarrow> f x)"

text \<open>
  Library functions whose results the code only passes on: \<open>json.dumps(obj).encode("utf-8")\<close>,
  \<open>json.loads(body.decode("utf-8"))\<close> (\<open>None\<close> when either step raises), \<open>str()\<close> of a float,
  list or dictionary, \<open>int()\<close> of a string, and the operator \<open>*\<close>.
\<close>

record runtime =
  json_dumps :: "json \<Rightarrow> bytes"
  json_loads :: "bytes \<Rightarrow> json option"
  py_repr :: "json \<Rightarrow> pystr"
  int_of_str :: "pystr \<Rightarrow> int option"
  py_mul :: "json \<Rightarrow> json \<Rightarrow> exc + json"

fun truthy :: "json \<Rightarrow> bool" where
  "truthy JNull = False"
| "truthy (JBool b) = b"
| "truthy (JInt n) = (n \<noteq> 0)"
| "truthy (JFloat f) = (f \<noteq> Finite 0)"
| "truthy (JStr s) = (s \<noteq> [])"
| "truthy (JArr xs) = (xs \<noteq> [])"
| "truthy (JObj kv) = (kv \<noteq> [])"

definition or_else :: "json \<Rightarrow> json \<Rightarrow> json" where
  "or_else a b = (if truthy a then a else b)"

fun type_name :: "json \<Rightarrow> string" where
  "type_name JNull = ''NoneType''"
| "type_name (JBool b) = ''bool''"
| "type_name (JInt n) = ''int''"
| "type_name (JFloat f) = ''float''"
| "type_name (JStr s) = ''str''"
| "type_name (JArr xs) = ''list''"
| "type_name (JObj kv) = ''dict''"

definition quoted :: "string \<Rightarrow> pystr" where
  "quoted s = [39] @ ustr s @ [39]"

definition str_int :: "int \<Rightarrow> pystr" where
  "str_int n = ustr (if n < 0 then ''-'' @ str_nat (nat (- n)) else str_nat (nat n))"

definition py_str :: "runtime \<Rightarrow> json \<Rightarrow> pystr" where
  "py_str rt v =
     (case v of
        JStr s \<Rightarrow> s
      | JNull \<Rightarrow> ustr ''None''
      | JBool b \<Rightarrow> ustr (if b then ''True'' else ''False'')
      | JInt n \<Rightarrow> str_int n
      | _ \<Rightarrow> py_repr rt v)"

text \<open>\<open>int(qty)\<close> under \<open>try\<close>: \<open>None\<close> when it raises.\<close>

definition py_int :: "runtime \<Rightarrow> json \<Rightarrow> int option" where
  "py_int rt v =
     (case v of
        JInt n \<Rightarrow> Some n
      | JBool b \<Rightarrow> Some (if b then 1 else 0)
      | JFloat (Finite x) \<Rightarrow> Some (if 0 \<le> x then \<lfloor>x\<rfloor> else \<lceil>x\<rceil>)
      | JStr s \<Rightarrow> int_of_str rt s
      | _ \<Rightarrow> None)"

text \<open>\<open>d.get(key, default)\<close>; only a dictionary has the method.\<close>

definition py_get :: "json \<Rightarrow> pystr \<Rightarrow> json \<Rightarrow> exc + json" where
  "py_get d key dflt =
     (case d of
        JObj kv \<Rightarrow> Inr (case map_of kv key of Some v \<Rightarrow> v | None \<Rightarrow> dflt)
      | _ \<Rightarrow> Inl (Exc AttributeError
                 (quoted (type_name d) @ ustr '' object has no attribute '' @ quoted ''get'')))"

definition py_len :: "json \<Rightarrow> exc + int" where
  "py_len v =
     (case v of
        JStr s \<Rightarrow> Inr (int (length s))
      | JArr xs \<Rightarrow> Inr (int (length xs))
      | JObj kv \<Rightarrow> Inr (int (length kv))
      | _ \<Rightarrow> Inl (Exc TypeError
                 (ustr ''object of type '' @ quoted (type_name v) @ ustr '' has no len()'')))"

text \<open>
  \<open>v[:5]\<close> and \<open>v[0]\<close>. The keys of a dictionary here are strings, so the key \<open>0\<close> is never
  present.
\<close>

definition py_slice5 :: "json \<Rightarrow> exc + json" where
  "py_slice5 v =
     (case v of
        JStr s \<Rightarrow> Inr (JStr (take 5 s))
      | JArr xs \<Rightarrow> Inr (JArr (take 5 xs))
      | JObj kv \<Rightarrow> Inl (Exc TypeError (ustr ''unhashable type: '' @ quoted ''slice''))
      | _ \<Rightarrow> Inl (Exc TypeError (quoted (type_name v) @ ustr '' object is not subscriptable'')))"

definition py_item0 :: "json \<Rightarrow> exc + json" where
  "py_item0 v =
     (case v of
        JStr s \<Rightarrow> (case s of [] \<Rightarrow> Inl (Exc IndexError (ustr ''string index out of range''))
                   | c # _ \<Rightarrow> Inr (JStr [c]))
      | JArr xs \<Rightarrow> (case xs of [] \<Rightarrow> Inl (Exc IndexError (ustr ''list index out of range''))
                    | x # _ \<Rightarrow> Inr x)
      | JObj kv \<Rightarrow> Inl (Exc KeyError (ustr ''0''))
      | _ \<Rightarrow> Inl (Exc TypeError (quoted (type_name v) @ ustr '' object is not subscriptable'')))"

definition strip :: "pystr \<Rightarrow> pystr" where
  "strip s = rev (dropWhile is_space (rev (dropWhile is_space s)))"

fun join :: "pystr \<Rightarrow> pystr list \<Rightarrow> pystr" where
  "join sep [] = []"
| "join sep [x] = x"
| "join sep (x # y # ys) = x @ sep @ join sep (y # ys)"

section \<open>Configuration and environment\<close>

text \<open>
  The module-level configuration read from the process environment. The environment of a
  call is what the outside world does: the outcome of the HTTP GET issued at each attempt
  for a filter expression, and whether \<open>time.sleep\<close> of a duration raises.
\<close>

record config =
  RETRIES :: int
  BACKOFF :: real
  DEFAULT_REGION :: "pystr option"
  DEFAULT_CURRENCY :: "pystr option"

datatype http_outcome =
    GetRaises exc
  | StatusRaises exc
  | JsonRaises exc
  | JsonReturns json

record env =
  http_get :: "pystr \<Rightarrow> nat \<Rightarrow> http_outcome"
  sleep_raises :: "real \<Rightarrow> exc option"

text \<open>
  The body of the \<open>try\<close> in \<open>fetch_prices\<close>: \<open>requests.get\<close>, \<open>raise_for_status\<close>,
  \<open>resp.json()\<close>. Whichever of the three raises, the exception leaves the \<open>try\<close> body.
\<close>

fun try_request :: "http_outcome \<Rightarrow> exc + json" where
  "try_request (GetRaises e) = Inl e"
| "try_request (StatusRaises e) = Inl e"
| "try_request (JsonRaises e) = Inl e"
| "try_request (JsonReturns j) = Inr j"

section \<open>\<open>fetch_prices\<close>\<close>

text \<open>
  What one invocation does: the value returned or the exception raised, the number of GET
  calls made, and the durations slept, in order.
\<close>

record fetch_run =
  returned :: "exc + json"
  calls :: nat
  sleeps :: "real list"

text \<open>
  The \<open>for attempt in range(RETRIES)\<close> loop over the attempts still to make, with the loop
  variables \<open>last_error\<close>, the calls made so far and the sleeps done so far. The empty list
  is the code after the loop.
\<close>

fun fetch_attempts ::
  "config \<Rightarrow> env \<Rightarrow> pystr \<Rightarrow> nat list \<Rightarrow> exc option \<Rightarrow> nat \<Rightarrow> real list \<Rightarrow> fetch_run" where
  "fetch_attempts cfg ev filter_expr [] last_error n sl =
     \<lparr>returned =
        (case last_error of
           Some e \<Rightarrow> Inl e
         | None \<Rightarrow> Inl (Exc RuntimeError (ustr ''Failed to fetch pricing data''))),
      calls = n, sleeps = sl\<rparr>"
| "fetch_attempts cfg ev filter_expr (attempt # rest) last_error n sl =
     (case try_request (http_get ev filter_expr attempt) of
        Inr body \<Rightarrow> \<lparr>returned = Inr body, calls = Suc n, sleeps = sl\<rparr>
      | Inl e \<Rightarrow>
          if is_request_exception e then
            (if int attempt = RETRIES cfg - 1 then
               \<lparr>returned = Inl e, calls = Suc n, sleeps = sl\<rparr>
             else
               (case sleep_raises ev (BACKOFF cfg * 2 ^ attempt) of
                  Some e' \<Rightarrow> \<lparr>returned = Inl e', calls = Suc n, sleeps = sl\<rparr>
                | None \<Rightarrow>
                    fetch_attempts cfg ev filter_expr rest (Some e) (Suc n)
                      (sl @ [BACKOFF cfg * 2 ^ attempt])))
          else \<lparr>returned = Inl e, calls = Suc n, sleeps = sl\<rparr>)"

definition fetch_prices :: "config \<Rightarrow> env \<Rightarrow> pystr \<Rightarrow> fetch_run" where
  "fetch_prices cfg ev filter_expr =
     fetch_attempts cfg ev filter_expr [0..<nat (RETRIES cfg)] None 0 []"

section \<open>The tools\<close>

text \<open>\<open>_odata_escape\<close>: every single quote (code point 39) is doubled.\<close>

definition odata_escape :: "pystr \<Rightarrow> pystr" where
  "odata_escape v = concat (map (\<lambda>c. if c = 39 then [39, 39] else [c]) v)"

text \<open>One optional clause of the filter, for \<open>region\<close> or \<open>currency\<close>.\<close>

definition filter_clause :: "string \<Rightarrow> json \<Rightarrow> runtime \<Rightarrow> pystr list" where
  "filter_clause field v rt =
     (if truthy v then
        (let escaped = odata_escape (strip (py_str rt v))
         in if escaped \<noteq> [] then [ustr field @ ustr '' eq '' @ [39] @ escaped @ [39]] else [])
      else [])"

text \<open>The filter expression that \<open>price_search\<close> builds for a valid \<open>sku\<close>.\<close>

definition filter_expr_of :: "runtime \<Rightarrow> pystr \<Rightarrow> json \<Rightarrow> json \<Rightarrow> pystr" where
  "filter_expr_of rt sku region currency =
     (let sku_escaped = odata_escape (strip sku);
          filters = [ustr ''contains(skuName,'' @ [39] @ sku_escaped @ [39] @ ustr '')'']
                    @ filter_clause ''armRegionName'' region rt
                    @ filter_clause ''currencyCode'' currency rt
      in join (ustr '' and '') filters)"

definition price_search ::
  "runtime \<Rightarrow> config \<Rightarrow> env \<Rightarrow> pystr \<Rightarrow> json \<Rightarrow> json \<Rightarrow> exc + json" where
  "price_search rt cfg ev sku region currency =
     (if strip sku = [] then Inl (Exc ValueError (ustr ''sku must be a non-empty string''))
      else if length sku > 200 then Inl (Exc ValueError (ustr ''sku is too long''))
      else
        (let filter_expr = filter_expr_of rt sku region currency
         in bindE (returned (fetch_prices cfg ev filter_expr)) (\<lambda>data.
            bindE (py_get data (ustr ''Items'') (JArr [])) (\<lambda>items.
            bindE (py_len items) (\<lambda>count.
            bindE (py_get data (ustr ''Items'') (JArr [])) (\<lambda>items'.
            bindE (py_slice5 items') (\<lambda>first5.
              Inr (JObj [(ustr ''status'', JStr (ustr ''ok'')),
                         (ustr ''tool'', JStr (ustr ''price_search'')),
                         (ustr ''sku'', JStr sku),
                         (ustr ''count'', JInt count),
                         (ustr ''items'', first5)]))))))))"

definition cost_estimate ::
  "runtime \<Rightarrow> config \<Rightarrow> env \<Rightarrow> pystr \<Rightarrow> int \<Rightarrow> json \<Rightarrow> json \<Rightarrow> exc + json" where
  "cost_estimate rt cfg ev sku quantity region currency =
     bindE (price_search rt cfg ev sku region currency) (\<lambda>search.
     bindE (py_get search (ustr ''items'') (JArr [])) (\<lambda>items.
       if \<not> truthy items then
         Inr (JObj [(ustr ''status'', JStr (ustr ''not-found'')),
                    (ustr ''tool'', JStr (ustr ''cost_estimate'')),
                    (ustr ''sku'', JStr sku)])
       else
         bindE (py_item0 items) (\<lambda>item.
         bindE (py_get item (ustr ''retailPrice'') (JFloat (Finite 0))) (\<lambda>p.
           (let price = or_else p (JFloat (Finite 0))
            in bindE (py_mul rt price (JInt quantity)) (\<lambda>pq.
               bindE (py_mul rt pq (JInt 730)) (\<lambda>monthly.
                 Inr (JObj [(ustr ''status'', JStr (ustr ''ok'')),
                            (ustr ''tool'', JStr (ustr ''cost_estimate'')),
                            (ustr ''sku'', JStr sku),
                            (ustr ''quantity'', JInt quantity),
                            (ustr ''unit_price'', price),
                            (ustr ''monthly_usd'', monthly)]))))))))"

definition ping :: json where
  "ping = JObj [(ustr ''status'', JStr (ustr ''ok'')),
                (ustr ''service'', JStr (ustr ''azure-pricing-mcp''))]"

section \<open>Responses and the dispatcher\<close>

text \<open>Standard output is the sequence of bytes written so far.\<close>

definition mcp_write :: "runtime \<Rightarrow> json \<Rightarrow> bytes \<Rightarrow> bytes" where
  "mcp_write rt obj out =
     (let payload = json_dumps rt obj;
          header = ''Content-Length: '' @ str_nat (length payload) @ CRLFCRLF
      in (out @ header) @ payload)"

definition mcp_error :: "json \<Rightarrow> int \<Rightarrow> pystr \<Rightarrow> json" where
  "mcp_error req_id code message =
     JObj [(ustr ''jsonrpc'', JStr (ustr ''2.0'')), (ustr ''id'', req_id),
           (ustr ''error'', JObj [(ustr ''code'', JInt code), (ustr ''message'', JStr message)])]"

definition mcp_result :: "json \<Rightarrow> json \<Rightarrow> json" where
  "mcp_result req_id result = 
     JObj [(ustr ''jsonrpc'', JStr (ustr ''2.0'')), (ustr ''id'', req_id),
           (ustr ''result'', result)]"

definition string_or_null :: json where
  "string_or_null = JObj [(ustr ''type'', JArr [JStr (ustr ''string''), JStr (ustr ''null'')])]"

definition mcp_tools_list :: json where
  "mcp_tools_list =
     JObj [(ustr ''tools'', JArr
       [JObj [(ustr ''name'', JStr (ustr ''price_search'')),
              (ustr ''description'', JStr (ustr
                 ''Search Azure Retail Prices for a SKU name (optionally filtered by region/currency)'')),
              (ustr ''inputSchema'', JObj
                 [(ustr ''type'', JStr (ustr ''object'')),
                  (ustr ''properties'', JObj
                     [(ustr ''sku'', JObj [(ustr ''type'', JStr (ustr ''string''))]),
                      (ustr ''region'', string_or_null),
                      (ustr ''currency'', string_or_null)]),
                  (ustr ''required'', JArr [JStr (ustr ''sku'')])])],
        JObj [(ustr ''name'', JStr (ustr ''cost_estimate'')),
              (ustr ''description'', JStr (ustr
                 ''Estimate monthly cost (rough) for a SKU and quantity (optionally filtered by region/currency)'')),
              (ustr ''inputSchema'', JObj
                 [(ustr ''type'', JStr (ustr ''object'')),
                  (ustr ''properties'', JObj
                     [(ustr ''sku'', JObj [(ustr ''type'', JStr (ustr ''string''))]),
                      (ustr ''quantity'', JObj [(ustr ''type'', JStr (ustr ''integer'')),
                                                (ustr ''minimum'', JInt 1)]),
                      (ustr ''region'', string_or_null),
                      (ustr ''currency'', string_or_null)]),
                  (ustr ''required'', JArr [JStr (ustr ''sku'')])])]])]"

definition env_default :: "pystr option \<Rightarrow> json" where
  "env_default d = (case d of None \<Rightarrow> JNull | Some s \<Rightarrow> JStr s)"

text \<open>
  The \<open>tools/call\<close> branch of \<open>handle\<close>. Like the whole \<open>try\<close> body it either raises or
  returns standard output after its one write.
\<close>

definition tools_call ::
  "runtime \<Rightarrow> config \<Rightarrow> env \<Rightarrow> json \<Rightarrow> json \<Rightarrow> bytes \<Rightarrow> exc + bytes" where
  "tools_call rt cfg ev req_id params out =
     bindE (py_get params (ustr ''name'') JNull) (\<lambda>name.
     bindE (py_get params (ustr ''arguments'') JNull) (\<lambda>a.
     (let arguments = or_else a (JObj []) in
     bindE (py_get arguments (ustr ''region'') JNull) (\<lambda>r.
     (let region = or_else r (env_default (DEFAULT_REGION cfg)) in
     bindE (py_get arguments (ustr ''currency'') JNull) (\<lambda>c.
     (let currency = or_else c (env_default (DEFAULT_CURRENCY cfg)) in
       if name = JStr (ustr ''price_search'') then
         bindE (py_get arguments (ustr ''sku'') JNull) (\<lambda>sku.
           if \<not> truthy sku then
             Inr (mcp_write rt
                    (mcp_error req_id (- 32602) (ustr ''Missing required argument: sku'')) out)
           else
             bindE (price_search rt cfg ev (py_str rt sku) region currency) (\<lambda>res.
               Inr (mcp_write rt (mcp_result req_id res) out)))
       else if name = JStr (ustr ''cost_estimate'') then
         bindE (py_get arguments (ustr ''sku'') JNull) (\<lambda>sku.
           if \<not> truthy sku then
             Inr (mcp_write rt
                    (mcp_error req_id (- 32602) (ustr ''Missing required argument: sku'')) out)
           else
             bindE (py_get arguments (ustr ''quantity'') (JInt 1)) (\<lambda>qty.
               (case py_int rt qty of
                  None \<Rightarrow>
                    Inr (mcp_write rt
                           (mcp_error req_id (- 32602) (ustr ''quantity must be an integer'')) out)
                | Some qty_int \<Rightarrow>
                    bindE (cost_estimate rt cfg ev (py_str rt sku) qty_int region currency)
                      (\<lambda>res. Inr (mcp_write rt (mcp_result req_id res) out)))))
       else
         Inr (mcp_write rt
                (mcp_error req_id (- 32601) (ustr ''Unknown tool: '' @ py_str rt name)) out))))))))"

definition initialize_result :: json where
  "initialize_result =
     JObj [(ustr ''serverInfo'', JObj [(ustr ''name'', JStr (ustr ''azure-pricing-mcp'')),
                                       (ustr ''version'', JStr (ustr ''0.1.0''))]),
           (ustr ''capabilities'', JObj [(ustr ''tools'', JObj [])])]"

definition handle_try ::
  "runtime \<Rightarrow> config \<Rightarrow> env \<Rightarrow> json \<Rightarrow> json \<Rightarrow> json \<Rightarrow> bytes \<Rightarrow> exc + bytes" where
  "handle_try rt cfg ev req_id method params out =
     (if method = JStr (ustr ''initialize'') then
        Inr (mcp_write rt (mcp_result req_id initialize_result) out)
      else if method = JStr (ustr ''ping'') then
        Inr (mcp_write rt (mcp_result req_id ping) out)
      else if method = JStr (ustr ''tools/list'') then
        Inr (mcp_write rt (mcp_result req_id mcp_tools_list) out)
      else if method = JStr (ustr ''tools/call'') then
        tools_call rt cfg ev req_id params out
      else
        Inr (mcp_write rt
               (mcp_error req_id (- 32601) (ustr ''Unknown method: '' @ py_str rt method)) out))"

definition dict_get :: "(pystr \<times> json) list \<Rightarrow> pystr \<Rightarrow> json" where
  "dict_get kv key = (case map_of kv key of Some v \<Rightarrow> v | None \<Rightarrow> JNull)"

definition handle :: "runtime \<Rightarrow> config \<Rightarrow> env \<Rightarrow> json \<Rightarrow> bytes \<Rightarrow> bytes" where
  "handle rt cfg ev msg out =
     (case msg of
        JObj kv \<Rightarrow>
          (let req_id = dict_get kv (ustr ''id'');
               method = dict_get kv (ustr ''method'');
               params = or_else (dict_get kv (ustr ''params'')) (JObj [])
           in if req_id = JNull then out
              else
                (case handle_try rt cfg ev req_id method params out of
                   Inr out' \<Rightarrow> out'
                 | Inl e \<Rightarrow>
                     mcp_write rt
                       (mcp_error req_id (- 32000) (ustr ''Server error: '' @ exc_str e)) out))
      | _ \<Rightarrow> out)"

text \<open>
  One body cut out by the decode loop: a body that does not parse is skipped, a parsed
  message goes to \<open>handle\<close>.
\<close>

definition handle_body :: "runtime \<Rightarrow> config \<Rightarrow> env \<Rightarrow> bytes \<Rightarrow> bytes \<Rightarrow> bytes" where
  "handle_body rt cfg ev body out =
     (case json_loads rt body of None \<Rightarrow> out | Some msg \<Rightarrow> handle rt cfg ev msg out)"

section \<open>Notions used in the statements\<close>

text \<open>
  Attempt \<open>i\<close> fails in the way the loop retries: the \<open>try\<close> body raises an instance of
  \<open>requests.RequestException\<close>.
\<close>

definition fails_retryably :: "env \<Rightarrow> pystr \<Rightarrow> nat \<Rightarrow> bool" where
  "fails_retryably ev filter_expr i =
     (case try_request (http_get ev filter_expr i) of
        Inl e \<Rightarrow> is_request_exception e
      | Inr body \<Rightarrow> False)"

definition backoff_delays :: "config \<Rightarrow> nat \<Rightarrow> real list" where
  "backoff_delays cfg k = map (\<lambda>i. BACKOFF cfg * 2 ^ i) [0..<k]"

text \<open>
  A message that is a \<open>tools/call\<close> request with a non-null id whose \<open>params\<close> and
  \<open>arguments\<close> are dictionaries: its id, the tool name and the arguments.
\<close>

definition tool_call_parts :: "json \<Rightarrow> (json \<times> json \<times> (pystr \<times> json) list) option" where
  "tool_call_parts msg =
     (case msg of
        JObj kv \<Rightarrow>
          (case dict_get kv (ustr ''params'') of
             JObj pkv \<Rightarrow>
               (case dict_get pkv (ustr ''arguments'') of
                  JObj akv \<Rightarrow>
                    if dict_get kv (ustr ''method'') = JStr (ustr ''tools/call'')
                       \<and> dict_get kv (ustr ''id'') \<noteq> JNull
                    then Some (dict_get kv (ustr ''id''), dict_get pkv (ustr ''name''), akv)
                    else None
                | _ \<Rightarrow> None)
           | _ \<Rightarrow> None)
      | _ \<Rightarrow> None)"

text \<open>The region and currency that the \<open>tools/call\<close> branch passes to a tool.\<close>

definition call_region :: "config \<Rightarrow> (pystr \<times> json) list \<Rightarrow> json" where
  "call_region cfg akv = or_else (dict_get akv (ustr ''region'')) (env_default (DEFAULT_REGION cfg))"

definition call_currency :: "config \<Rightarrow> (pystr \<times> json) list \<Rightarrow> json" where
  "call_currency cfg akv =
     or_else (dict_get akv (ustr ''currency'')) (env_default (DEFAULT_CURRENCY cfg))"

text \<open>The response written by the \<open>except\<close> clause of \<open>handle\<close>.\<close>

definition server_error :: "json \<Rightarrow> exc \<Rightarrow> json" where
  "server_error req_id e = mcp_error req_id (- 32000) (ustr ''Server error: '' @ exc_str e)"

text \<open>
  Standard output grew from \<open>out\<close> to \<open>out'\<close> by exactly one frame, whose payload is a result
  or an error response carrying \<open>req_id\<close>.
\<close>

definition one_response :: "runtime \<Rightarrow> json \<Rightarrow> bytes \<Rightarrow> bytes \<Rightarrow> bool" where
  "one_response rt req_id out out' \<longleftrightarrow>
     (\<exists>r. ((\<exists>v. r = mcp_result req_id v) \<or> (\<exists>code m. r = mcp_error req_id code m))
          \<and> out' = out @ mcp_frame (json_dumps rt r))"

text \<open>
  The \<open>price\<close> that \<open>cost_estimate\<close> reads from the first item, and the dictionary it returns
  when it finds one.
\<close>

definition unit_price_of :: "(pystr \<times> json) list \<Rightarrow> json" where
  "unit_price_of ikv =
     or_else (case map_of ikv (ustr ''retailPrice'') of Some v \<Rightarrow> v | None \<Rightarrow> JFloat (Finite 0))
       (JFloat (Finite 0))"

definition estimate_ok :: "pystr \<Rightarrow> int \<Rightarrow> json \<Rightarrow> json \<Rightarrow> json" where
  "estimate_ok sku quantity price monthly =
     JObj [(ustr ''status'', JStr (ustr ''ok'')),
           (ustr ''tool'', JStr (ustr ''cost_estimate'')),
           (ustr ''sku'', JStr sku),
           (ustr ''quantity'', JInt quantity),
           (ustr ''unit_price'', price),
           (ustr ''monthly_usd'', monthly)]"

section \<open>Concrete inputs\<close>

text \<open>
  The default configuration of the module, a small runtime, and upstream behaviours, used
  to run the model on concrete inputs.
\<close>

definition default_config :: config where
  "default_config =
     \<lparr>RETRIES = 3, BACKOFF = 1 / 2, DEFAULT_REGION = None, DEFAULT_CURRENCY = None\<rparr>"

fun sample_dumps :: "json \<Rightarrow> bytes" where
  "sample_dumps JNull = ''null''"
| "sample_dumps (JBool b) = (if b then ''true'' else ''false'')"
| "sample_dumps (JInt n) = (if n < 0 then ''-'' @ str_nat (nat (- n)) else str_nat (nat n))"
| "sample_dumps v = ''{}''"

definition sample_loads :: "bytes \<Rightarrow> json option" where
  "sample_loads b =
     (if b = ''null'' then Some JNull
      else if b = ''true'' then Some (JBool True)
      else if b = ''false'' then Some (JBool False)
      else None)"

definition sample_mul :: "json \<Rightarrow> json \<Rightarrow> exc + json" where
  "sample_mul a b =
     (case (a, b) of
        (JInt x, JInt y) \<Rightarrow> Inr (JInt (x * y))
      | _ \<Rightarrow> Inl (Exc TypeError (ustr ''unsupported operand type(s)'')))"

definition sample_runtime :: runtime where
  "sample_runtime =
     \<lparr>json_dumps = sample_dumps, json_loads = sample_loads, py_repr = (\<lambda>v. ustr ''...''),
      int_of_str = (\<lambda>s. None), py_mul = sample_mul\<rparr>"

definition b2s_request :: "string \<Rightarrow> json" where
  "b2s_request tool =
     JObj [(ustr ''jsonrpc'', JStr (ustr ''2.0'')), (ustr ''id'', JInt 1),
           (ustr ''method'', JStr (ustr ''tools/call'')),
           (ustr ''params'', JObj [(ustr ''name'', JStr (ustr tool)),
                                   (ustr ''arguments'', JObj [(ustr ''sku'', JStr (ustr ''B2s''))])])]"

definition ten_items :: "json list" where
  "ten_items = map (\<lambda>i. JObj [(ustr ''retailPrice'', JInt i)]) [0, 1, 2, 3, 4, 5, 6, 7, 8, 9]"

text \<open>
  A runtime whose \<open>json.dumps\<close> writes the text of a value in the layout of the library
  (\<open>", "\<close> and \<open>": "\<close> as separators), for values whose strings are plain ASCII without
  quotes or backslashes; a float is written as \<open>0.0\<close>.
\<close>

definition quote_bytes :: "pystr \<Rightarrow> bytes" where
  "quote_bytes s = [CHR 0x22] @ map char_of s @ [CHR 0x22]"

fun join_bytes :: "bytes \<Rightarrow> bytes list \<Rightarrow> bytes" where
  "join_bytes sep [] = []"
| "join_bytes sep [x] = x"
| "join_bytes sep (x # y # ys) = x @ sep @ join_bytes sep (y # ys)"

fun text_dumps :: "json \<Rightarrow> bytes" where
  "text_dumps JNull = ''null''"
| "text_dumps (JBool b) = (if b then ''true'' else ''false'')"
| "text_dumps (JInt n) = (if n < 0 then ''-'' @ str_nat (nat (- n)) else str_nat (nat n))"
| "text_dumps (JFloat f) = ''0.0''"
| "text_dumps (JStr s) = quote_bytes s"
| "text_dumps (JArr xs) = ''['' @ join_bytes '', '' (map text_dumps xs) @ '']''"
| "text_dumps (JObj kv) =
     ''{'' @ join_bytes '', '' (map (\<lambda>(k, v). quote_bytes k @ '': '' @ text_dumps v) kv) @ ''}''"

definition text_runtime :: runtime where
  "text_runtime =
     \<lparr>json_dumps = text_dumps, json_loads = sample_loads, py_repr = (\<lambda>v. ustr ''...''),
      int_of_str = (\<lambda>s. None), py_mul = sample_mul\<rparr>"

definition upstream_down :: env where
  "upstream_down =
     \<lparr>http_get = (\<lambda>f i. GetRaises (Exc RequestException (ustr ''connection refused''))),
      sleep_raises = (\<lambda>d. None)\<rparr>"

definition upstream_items :: "json list \<Rightarrow> env" where
  "upstream_items xs =
     \<lparr>http_get = (\<lambda>f i. JsonReturns (JObj [(ustr ''Items'', JArr xs)])),
      sleep_raises = (\<lambda>d. None)\<rparr>"

text \<open>
  A 2xx response whose body is not JSON: \<open>resp.json()\<close> raises. In \<open>requests\<close> from version
  2.27 the exception is \<open>requests.exceptions.JSONDecodeError\<close>, a subclass of
  \<open>RequestException\<close>; earlier versions raise a plain \<open>ValueError\<close>.
\<close>

definition upstream_bad_json_once :: env where
  "upstream_bad_json_once =
     \<lparr>http_get = (\<lambda>f i. if i = 0 then JsonRaises (Exc RequestException (ustr ''Expecting value''))
                          else JsonReturns (JObj [(ustr ''Items'', JArr [])])),
      sleep_raises = (\<lambda>d. None)\<rparr>"

definition upstream_value_error :: env where
  "upstream_value_error =
     \<lparr>http_get = (\<lambda>f i. JsonRaises (Exc ValueError (ustr ''Expecting value''))),
      sleep_raises = (\<lambda>d. None)\<rparr>"

section \<open>Searching the buffer\<close>

lemma bytes_find_bound: "bytes_find buf sub = Some i \<Longrightarrow> i + length sub \<le> length buf"
proof (induction buf arbitrary: i)
  case Nil
  then show ?case by (simp split: if_splits)
next
  case (Cons c cs)
  show ?case
  proof (cases "prefix sub (c # cs)")
    case True
    with Cons.prems have "i = 0" by simp
    with prefix_length_le [OF True] show ?thesis by simp
  next
    case False
    with Cons.prems obtain j where "bytes_find cs sub = Some j" "i = Suc j" by auto
    with Cons.IH show ?thesis by fastforce
  qed
qed

lemma CRLFCRLF_length [simp]: "length CRLFCRLF = 4"
  by (simp add: CRLFCRLF_def)

lemma bytes_find_first:
  "bytes_find buf sub = Some i \<Longrightarrow> prefix sub (drop i buf) \<and> (\<forall>j<i. \<not> prefix sub (drop j buf))"
proof (induction buf arbitrary: i)
  case Nil
  then show ?case by (simp split: if_splits)
next
  case (Cons c cs)
  show ?case
  proof (cases "prefix sub (c # cs)")
    case True
    with Cons.prems show ?thesis by simp
  next
    case False
    with Cons.prems obtain k where k: "bytes_find cs sub = Some k" "i = Suc k" by auto
    from Cons.IH [OF k(1)] have ih: "prefix sub (drop k cs)" "\<forall>j<k. \<not> prefix sub (drop j cs)"
      by simp_all
    have "\<not> prefix sub (drop j (c # cs))" if "j < i" for j
    proof (cases j)
      case 0
      with False show ?thesis by simp
    next
      case (Suc m)
      with that k(2) ih(2) show ?thesis by simp
    qed
    with ih(1) k(2) show ?thesis by simp
  qed
qed

lemma bytes_find_SomeI:
  "i \<le> length buf \<Longrightarrow> prefix sub (drop i buf) \<Longrightarrow> (\<forall>j<i. \<not> prefix sub (drop j buf))
   \<Longrightarrow> bytes_find buf sub = Some i"
proof (induction buf arbitrary: i)
  case Nil
  then show ?case by simp
next
  case (Cons c cs)
  show ?case
  proof (cases i)
    case 0
    with Cons.prems show ?thesis by simp
  next
    case (Suc k)
    with Cons.prems have nz: "\<not> prefix sub (c # cs)" by force
    from Suc Cons.prems have "k \<le> length cs" "prefix sub (drop k cs)" by simp_all
    moreover have "\<forall>j<k. \<not> prefix sub (drop j cs)"
    proof (intro allI impI)
      fix j assume "j < k"
      then have "Suc j < i" using Suc by simp
      with Cons.prems(3) have "\<not> prefix sub (drop (Suc j) (c # cs))" by blast
      then show "\<not> prefix sub (drop j cs)" by simp
    qed
    ultimately have "bytes_find cs sub = Some k" by (rule Cons.IH)
    with nz Suc show ?thesis by simp
  qed
qed

lemma bytes_find_NoneI:
  "(\<forall>i\<le>length buf. \<not> prefix sub (drop i buf)) \<Longrightarrow> bytes_find buf sub = None"
proof (induction buf)
  case Nil
  then show ?case by auto
next
  case (Cons c cs)
  from Cons.prems have "\<not> prefix sub (c # cs)" by force
  moreover have "\<forall>i\<le>length cs. \<not> prefix sub (drop i cs)"
  proof (intro allI impI)
    fix i assume "i \<le> length cs"
    then have "Suc i \<le> length (c # cs)" by simp
    with Cons.prems have "\<not> prefix sub (drop (Suc i) (c # cs))" by blast
    then show "\<not> prefix sub (drop i cs)" by simp
  qed
  ultimately show ?case using Cons.IH by simp
qed

lemma prefix_append_long:
  "length s \<le> length xs \<Longrightarrow> prefix s (xs @ r) \<longleftrightarrow> prefix s xs"
proof
  assume "length s \<le> length xs" and "prefix s (xs @ r)"
  moreover have "prefix xs (xs @ r)" by simp
  ultimately show "prefix s xs" by (metis prefix_length_prefix)
next
  assume "prefix s xs"
  then show "prefix s (xs @ r)" by (rule prefix_prefix)
qed

lemma bytes_find_extend:
  assumes "bytes_find (h @ sub) sub = Some (length h)"
  shows "bytes_find (h @ sub @ rest) sub = Some (length h)"
proof (rule bytes_find_SomeI)
  show "length h \<le> length (h @ sub @ rest)" by simp
  show "prefix sub (drop (length h) (h @ sub @ rest))" by simp
  show "\<forall>j<length h. \<not> prefix sub (drop j (h @ sub @ rest))"
  proof (intro allI impI)
    fix j assume j: "j < length h"
    from bytes_find_first [OF assms] j have "\<not> prefix sub (drop j (h @ sub))" by blast
    moreover have "drop j (h @ sub @ rest) = drop j (h @ sub) @ rest" using j by simp
    moreover have "length sub \<le> length (drop j (h @ sub))" using j by simp
    ultimately show "\<not> prefix sub (drop j (h @ sub @ rest))"
      using prefix_append_long [of sub "drop j (h @ sub)" rest] by simp
  qed
qed

lemma bytes_find_truncated:
  assumes "bytes_find (h @ sub) sub = Some (length h)" and "k < length h + length sub"
  shows "bytes_find (take k (h @ sub @ rest)) sub = None"
proof (rule bytes_find_NoneI, intro allI impI notI)
  fix i
  assume i: "i \<le> length (take k (h @ sub @ rest))"
    and p: "prefix sub (drop i (take k (h @ sub @ rest)))"
  define X where "X = h @ sub"
  have lX: "length X = length h + length sub" by (simp add: X_def)
  have tk: "take k (h @ sub @ rest) = take k X" using assms(2) by (simp add: X_def)
  from p have "length sub \<le> length (drop i (take k X))"
    unfolding tk by (rule prefix_length_le)
  then have "length sub \<le> k - i" using assms(2) lX by simp
  moreover have "sub \<noteq> []"
  proof
    assume e: "sub = []"
    with assms(2) obtain c cs where "h = c # cs" by (cases h) auto
    with assms(1) e show False by simp
  qed
  ultimately have ih: "i < length h" using assms(2) by (cases sub) auto
  have "prefix (drop i (take k X)) (drop i X)"
    by (simp add: drop_take take_is_prefix)
  with p have "prefix sub (drop i X)" unfolding tk by (rule prefix_order.trans)
  with bytes_find_first [OF assms(1)] ih show False unfolding X_def by blast
qed

lemma bytes_find_no_CR:
  assumes "CHR 0x0D \<notin> set h"
  shows "bytes_find (h @ CRLFCRLF) CRLFCRLF = Some (length h)"
proof (rule bytes_find_SomeI)
  show "length h \<le> length (h @ CRLFCRLF)" by simp
  show "prefix CRLFCRLF (drop (length h) (h @ CRLFCRLF))" by simp
  show "\<forall>j<length h. \<not> prefix CRLFCRLF (drop j (h @ CRLFCRLF))"
  proof (intro allI impI)
    fix j assume j: "j < length h"
    then have "drop j (h @ CRLFCRLF) = (h ! j) # drop (Suc j) (h @ CRLFCRLF)"
      by (simp add: Cons_nth_drop_Suc nth_append)
    moreover from j assms have "h ! j \<noteq> CHR 0x0D" by (metis nth_mem)
    ultimately show "\<not> prefix CRLFCRLF (drop j (h @ CRLFCRLF))"
      by (simp add: CRLFCRLF_def)
  qed
qed

section \<open>Parsing the header that the encoder writes\<close>

lemma utf8_decode_ascii:
  "\<forall>b\<in>set bs. b < 128 \<Longrightarrow> utf8_decode_ignore bs = bs"
  by (induction bs) simp_all

lemma of_char_digit_char: "d < 10 \<Longrightarrow> of_char (digit_char d) = (48 + d :: nat)"
  by (simp add: digit_char_def)

lemma str_nat_digits:
  "\<forall>c\<in>set (str_nat n). \<exists>d<10. c = digit_char d"
proof (induction n rule: str_nat.induct)
  case (1 n)
  show ?case
  proof (cases "n < 10")
    case True
    then show ?thesis by (subst str_nat.simps) auto
  next
    case False
    have "\<exists>d<10. digit_char (n mod 10) = digit_char d"
      by (rule exI [of _ "n mod 10"]) simp
    with False 1 show ?thesis by (subst str_nat.simps) auto
  qed
qed

lemma str_nat_nonempty: "str_nat n \<noteq> []"
  by (subst str_nat.simps) simp

lemma decimal_value_ascii: "48 \<le> c \<Longrightarrow> c \<le> 57 \<Longrightarrow> decimal_value c = Some (c - 48)"
  by (simp add: decimal_value_def nd_zeros_def)

lemma int_of_digits_snoc:
  "int_of_digits (ds @ [c]) = 10 * int_of_digits ds + (case decimal_value c of Some v \<Rightarrow> v | None \<Rightarrow> 0)"
  by (simp add: int_of_digits_def)

lemma int_of_digits_str_nat: "int_of_digits (map of_char (str_nat n)) = n"
proof (induction n rule: str_nat.induct)
  case (1 n)
  show ?case
  proof (cases "n < 10")
    case True
    then show ?thesis
      by (subst str_nat.simps) (simp add: int_of_digits_def of_char_digit_char decimal_value_ascii)
  next
    case False
    have m: "n mod 10 < 10" by simp
    from False 1 have ih: "int_of_digits (map of_char (str_nat (n div 10))) = n div 10" by simp
    have "int_of_digits (map of_char (str_nat n))
          = int_of_digits (map of_char (str_nat (n div 10)) @ [of_char (digit_char (n mod 10))])"
      using False by (subst str_nat.simps) simp
    also have "\<dots> = 10 * (n div 10) + n mod 10"
      by (simp only: int_of_digits_snoc ih of_char_digit_char [OF m])
         (simp add: decimal_value_ascii)
    finally show ?thesis by simp
  qed
qed

lemma ascii_digit_is_digit: "48 \<le> c \<Longrightarrow> c \<le> 57 \<Longrightarrow> is_digit c"
  by (simp add: is_digit_def decimal_value_ascii)

lemma ascii_digit_not_space: "48 \<le> c \<Longrightarrow> c \<le> 57 \<Longrightarrow> \<not> is_space c"
  by (simp add: is_space_def)

lemma match_here_header:
  assumes "ds \<noteq> []" and "\<forall>c\<in>set ds. 48 \<le> c \<and> c \<le> 57"
  shows "match_here (ustr ''Content-Length: '' @ ds) = Some ds"
proof -
  have pre: "ci_prefix cl_literal (ustr ''Content-Length: '' @ ds)"
    by (simp add: cl_literal_def ustr_def ci_eq_def)
  have dr: "drop (length cl_literal) (ustr ''Content-Length: '' @ ds) = 32 # ds"
    by (simp add: cl_literal_def ustr_def)
  from assms obtain d ds' where ds: "ds = d # ds'" by (cases ds) auto
  with assms(2) have nsp: "\<not> is_space d" by (simp add: ascii_digit_not_space)
  have "is_space 32" by (simp add: is_space_def)
  with ds nsp have dw: "dropWhile is_space (32 # ds) = ds" by simp
  from assms(2) have tw: "takeWhile is_digit ds = ds"
    by (simp add: ascii_digit_is_digit)
  show ?thesis
    unfolding match_here_def using pre assms(1) by (simp only: dr dw tw Let_def if_True if_False)
qed

lemma content_length_mcp_header: "content_length (mcp_header payload) = Some (length payload)"
proof -
  let ?ds = "map of_char (str_nat (length payload)) :: nat list"
  have dig: "\<forall>c\<in>set ?ds. 48 \<le> c \<and> c \<le> 57"
    using str_nat_digits [of "length payload"] by (auto simp: of_char_digit_char)
  have ne: "?ds \<noteq> []" by (simp add: str_nat_nonempty)
  have "map of_char (mcp_header payload) = ustr ''Content-Length: '' @ ?ds"
    by (simp add: mcp_header_def ustr_def)
  moreover have "\<forall>b\<in>set (ustr ''Content-Length: '' @ ?ds). b < 128"
    using dig by (auto simp: ustr_def)
  ultimately have "decode_header (mcp_header payload) = ustr ''Content-Length: '' @ ?ds"
    by (simp add: decode_header_def utf8_decode_ascii)
  moreover have "re_search (ustr ''Content-Length: '' @ ?ds) = Some ?ds"
    using match_here_header [OF ne dig] by (simp add: ustr_def)
  ultimately show ?thesis
    by (simp add: content_length_def int_of_digits_str_nat)
qed

lemma mcp_header_no_CR: "CHR 0x0D \<notin> set (mcp_header payload)"
proof
  assume "CHR 0x0D \<in> set (mcp_header payload)"
  then have "CHR 0x0D \<in> set (str_nat (length payload))"
    by (auto simp: mcp_header_def)
  with str_nat_digits obtain d where "d < 10" "CHR 0x0D = digit_char d" by blast
  then have "of_char (CHR 0x0D) = (48 + d :: nat)" by (simp add: of_char_digit_char)
  then show False by simp
qed

section \<open>Framing: round trip, partial reads, resynchronisation\<close>

lemma process_buffer_wait_header:
  "bytes_find buffer CRLFCRLF = None \<Longrightarrow> process_buffer buffer = ([], buffer)"
  by (subst process_buffer.simps) simp

lemma process_buffer_empty: "process_buffer [] = ([], [])"
  by (rule process_buffer_wait_header) (simp add: CRLFCRLF_def)


lemma process_buffer_wait_body:
  assumes "bytes_find (h @ CRLFCRLF) CRLFCRLF = Some (length h)"
    and "content_length h = Some n" and "length b < n"
  shows "process_buffer (h @ CRLFCRLF @ b) = ([], h @ CRLFCRLF @ b)"
proof -
  have "bytes_find (h @ CRLFCRLF @ b) CRLFCRLF = Some (length h)"
    using assms(1) by (rule bytes_find_extend)
  then show ?thesis
    using assms(2,3) by (subst process_buffer.simps) simp
qed

lemma process_buffer_frame:
  assumes "bytes_find (h @ CRLFCRLF) CRLFCRLF = Some (length h)"
    and "content_length h = Some (length body)"
  shows "process_buffer (h @ CRLFCRLF @ body @ rest)
         = (body # fst (process_buffer rest), snd (process_buffer rest))"
proof -
  have "bytes_find (h @ CRLFCRLF @ body @ rest) CRLFCRLF = Some (length h)"
    using assms(1) by (rule bytes_find_extend)
  then show ?thesis
    using assms(2) by (subst process_buffer.simps) (simp add: Let_def)
qed

lemma mcp_header_sep:
  "bytes_find (mcp_header p @ CRLFCRLF) CRLFCRLF = Some (length (mcp_header p))"
  by (rule bytes_find_no_CR) (rule mcp_header_no_CR)

lemma process_buffer_mcp_frame:
  "process_buffer (mcp_frame p @ rest) = (p # fst (process_buffer rest), snd (process_buffer rest))"
  using process_buffer_frame [OF mcp_header_sep content_length_mcp_header, of p rest]
  by (simp add: mcp_frame_def)

lemma process_buffer_mcp_frame_prefix:
  assumes "k < length (mcp_frame p)"
  shows "process_buffer (take k (mcp_frame p)) = ([], take k (mcp_frame p))"
proof (cases "k < length (mcp_header p) + 4")
  case True
  have "bytes_find (take k (mcp_header p @ CRLFCRLF @ p)) CRLFCRLF = None"
    using mcp_header_sep True by (intro bytes_find_truncated) simp_all
  then show ?thesis
    unfolding mcp_frame_def by (rule process_buffer_wait_header)
next
  case False
  define j where "j = k - (length (mcp_header p) + 4)"
  from False assms have j: "j < length p"
    by (simp add: j_def mcp_frame_def)
  from False have "take k (mcp_frame p) = mcp_header p @ CRLFCRLF @ take j p"
    by (simp add: mcp_frame_def j_def)
  moreover have "process_buffer (mcp_header p @ CRLFCRLF @ take j p)
                 = ([], mcp_header p @ CRLFCRLF @ take j p)"
    using mcp_header_sep content_length_mcp_header
    by (rule process_buffer_wait_body) (use j in simp)
  ultimately show ?thesis by simp
qed

text \<open>
  Claim C2. Split the bytes of an encoded frame at any offset \<open>k\<close> inside it. On the first
  \<open>k\<close> bytes the decode loop cuts out no frame and leaves the buffer as it is, header bytes
  included; reading the two parts as successive chunks yields the same single frame as
  reading the frame in one chunk.
\<close>

theorem partial_read:
  assumes "k < length (mcp_frame payload)"
  shows "process_buffer (take k (mcp_frame payload)) = ([], take k (mcp_frame payload))
       \<and> (0 < k \<longrightarrow> read_loop [] [take k (mcp_frame payload), drop k (mcp_frame payload)]
                      = read_loop [] [mcp_frame payload])
       \<and> read_loop [] [mcp_frame payload] = [payload]"
proof -
  have ne: "mcp_frame payload \<noteq> []" using assms by auto
  have w: "process_buffer (take k (mcp_frame payload)) = ([], take k (mcp_frame payload))"
    using assms by (rule process_buffer_mcp_frame_prefix)
  have whole: "read_loop [] [mcp_frame payload] = [payload]"
    using ne process_buffer_mcp_frame [of payload "[]"] by (simp add: process_buffer_empty)
  have "read_loop [] [take k (mcp_frame payload), drop k (mcp_frame payload)] = [payload]"
    if "0 < k"
  proof -
    from that ne have "take k (mcp_frame payload) \<noteq> []" by simp
    moreover from assms have "drop k (mcp_frame payload) \<noteq> []" by simp
    ultimately show ?thesis
      using process_buffer_mcp_frame [of payload "[]"]
      by (simp add: w process_buffer_empty)
  qed
  with w whole show ?thesis by simp
qed


text \<open>
  The frame of the payload \<open>{}\<close> split after five bytes.
\<close>

theorem partial_read_witness:
  "(5::nat) < length (mcp_frame ''{}'')
   \<and> process_buffer (take 5 (mcp_frame ''{}'')) = ([], take 5 (mcp_frame ''{}''))
   \<and> read_loop [] [take 5 (mcp_frame ''{}''), drop 5 (mcp_frame ''{}'')] = [''{}'']"
proof -
  have h: "(5::nat) < length (mcp_frame ''{}'')" by code_simp
  have p: "(0::nat) < 5" by simp
  from partial_read [OF h] p h show ?thesis by presburger
qed


section \<open>Retries and backoff\<close>

lemma backoff_delays_Suc: "backoff_delays cfg (Suc k) = backoff_delays cfg k @ [BACKOFF cfg * 2 ^ k]"
  by (simp add: backoff_delays_def)

lemma fails_retryablyD:
  "fails_retryably ev f i \<Longrightarrow> \<exists>e. try_request (http_get ev f i) = Inl e \<and> is_request_exception e"
  by (auto simp: fails_retryably_def split: sum.splits)

lemma fetch_attempts_calls:
  "n \<le> calls (fetch_attempts cfg ev f as le n sl)
   \<and> calls (fetch_attempts cfg ev f as le n sl) \<le> n + length as"
proof (induction as arbitrary: le n sl)
  case Nil
  show ?case by simp
next
  case (Cons a as)
  have ih: "Suc n \<le> calls (fetch_attempts cfg ev f as le' (Suc n) sl')
     \<and> calls (fetch_attempts cfg ev f as le' (Suc n) sl') \<le> Suc n + length as" for le' sl'
    by (rule Cons.IH)
  show ?case
  proof (cases "try_request (http_get ev f a)")
    case (Inr body)
    then show ?thesis by simp
  next
    case (Inl e)
    show ?thesis
    proof (cases "is_request_exception e \<and> int a \<noteq> RETRIES cfg - 1
                  \<and> sleep_raises ev (BACKOFF cfg * 2 ^ a) = None")
      case True
      with Inl ih [of "Some e" "sl @ [BACKOFF cfg * 2 ^ a]"] show ?thesis by simp
    next
      case False
      with Inl show ?thesis by (auto split: option.splits)
    qed
  qed
qed

lemma fetch_prices_calls_le: "calls (fetch_prices cfg ev f) \<le> nat (RETRIES cfg)"
  using fetch_attempts_calls [of 0 cfg ev f "[0..<nat (RETRIES cfg)]" None "[]"]
  by (simp add: fetch_prices_def)

lemma fetch_skip:
  assumes "k < nat (RETRIES cfg)"
    and "\<forall>i<k. fails_retryably ev f i"
    and "\<forall>i<k. sleep_raises ev (BACKOFF cfg * 2 ^ i) = None"
  shows "\<exists>le. fetch_prices cfg ev f
              = fetch_attempts cfg ev f [k..<nat (RETRIES cfg)] le k (backoff_delays cfg k)"
  using assms
proof (induction k)
  case 0
  show ?case by (auto simp: fetch_prices_def backoff_delays_def)
next
  case (Suc k)
  from Suc.prems have k: "k < nat (RETRIES cfg)" by simp
  from Suc.prems Suc.IH [OF k] obtain le where
    le: "fetch_prices cfg ev f
         = fetch_attempts cfg ev f [k..<nat (RETRIES cfg)] le k (backoff_delays cfg k)"
    by auto
  from Suc.prems(2) have "fails_retryably ev f k" by simp
  then obtain e where e: "try_request (http_get ev f k) = Inl e" "is_request_exception e"
    using fails_retryablyD by blast
  from Suc.prems(1) have notlast: "int k \<noteq> RETRIES cfg - 1" by linarith
  from Suc.prems(3) have sl: "sleep_raises ev (BACKOFF cfg * 2 ^ k) = None" by simp
  have "[k..<nat (RETRIES cfg)] = k # [Suc k..<nat (RETRIES cfg)]"
    using k by (rule upt_conv_Cons)
  with le e notlast sl
  have "fetch_prices cfg ev f
        = fetch_attempts cfg ev f [Suc k..<nat (RETRIES cfg)] (Some e) (Suc k)
            (backoff_delays cfg (Suc k))"
    by (simp add: backoff_delays_Suc)
  then show ?case by blast
qed

lemma fetch_stops_at:
  assumes "k < nat (RETRIES cfg)"
    and "\<forall>i<k. fails_retryably ev f i"
    and "\<forall>i<k. sleep_raises ev (BACKOFF cfg * 2 ^ i) = None"
    and "case try_request (http_get ev f k) of
           Inr body \<Rightarrow> True
         | Inl e \<Rightarrow> \<not> is_request_exception e \<or> int k = RETRIES cfg - 1"
  shows "fetch_prices cfg ev f
         = \<lparr>returned = try_request (http_get ev f k), calls = Suc k,
            sleeps = backoff_delays cfg k\<rparr>"
proof -
  from fetch_skip [OF assms(1-3)] obtain le where
    le: "fetch_prices cfg ev f
         = fetch_attempts cfg ev f [k..<nat (RETRIES cfg)] le k (backoff_delays cfg k)"
    by blast
  have "[k..<nat (RETRIES cfg)] = k # [Suc k..<nat (RETRIES cfg)]"
    using assms(1) by (rule upt_conv_Cons)
  with le assms(4) show ?thesis
    by (auto split: sum.splits)
qed

lemma fetch_attempts_sleeps:
  assumes "\<forall>d. sleep_raises ev d = None"
  shows "sleeps (fetch_attempts cfg ev f [k..<nat (RETRIES cfg)] le k sl)
         = sl @ map (\<lambda>i. BACKOFF cfg * 2 ^ i)
                  [k..<calls (fetch_attempts cfg ev f [k..<nat (RETRIES cfg)] le k sl) - 1]
       \<and> (k < nat (RETRIES cfg)
          \<longrightarrow> k < calls (fetch_attempts cfg ev f [k..<nat (RETRIES cfg)] le k sl))"
proof (induction "nat (RETRIES cfg) - k" arbitrary: k le sl)
  case 0
  then have "[k..<nat (RETRIES cfg)] = []" by simp
  then show ?case using 0 by simp
next
  case (Suc d)
  then have k: "k < nat (RETRIES cfg)" by simp
  have up: "[k..<nat (RETRIES cfg)] = k # [Suc k..<nat (RETRIES cfg)]"
    using k by (rule upt_conv_Cons)
  let ?r = "fetch_attempts cfg ev f [k..<nat (RETRIES cfg)] le k sl"
  show ?case
  proof (cases "fails_retryably ev f k \<and> int k \<noteq> RETRIES cfg - 1")
    case True
    then obtain e where e: "try_request (http_get ev f k) = Inl e" "is_request_exception e"
      using fails_retryablyD by blast
    let ?r' = "fetch_attempts cfg ev f [Suc k..<nat (RETRIES cfg)] (Some e) (Suc k)
                 (sl @ [BACKOFF cfg * 2 ^ k])"
    from True e assms have step: "?r = ?r'" by (simp add: up)
    from True k have sk: "Suc k < nat (RETRIES cfg)" by linarith
    from Suc.hyps(2) have "d = nat (RETRIES cfg) - Suc k" by simp
    from Suc.hyps(1) [OF this, of "Some e" "sl @ [BACKOFF cfg * 2 ^ k]"] sk
    have ih: "sleeps ?r' = (sl @ [BACKOFF cfg * 2 ^ k])
                @ map (\<lambda>i. BACKOFF cfg * 2 ^ i) [Suc k..<calls ?r' - 1]"
      and c: "Suc k < calls ?r'" by simp_all
    from c have "[k..<calls ?r' - 1] = k # [Suc k..<calls ?r' - 1]"
      by (intro upt_conv_Cons) simp
    with ih c show ?thesis unfolding step by simp
  next
    case False
    then have "?r = \<lparr>returned = try_request (http_get ev f k), calls = Suc k, sleeps = sl\<rparr>"
      by (auto simp: up fails_retryably_def split: sum.splits)
    then show ?thesis by simp
  qed
qed

lemma fetch_prices_sleeps:
  assumes "\<forall>d. sleep_raises ev d = None"
  shows "sleeps (fetch_prices cfg ev f) = backoff_delays cfg (calls (fetch_prices cfg ev f) - 1)"
  using fetch_attempts_sleeps [OF assms, of cfg f 0 None "[]"]
  by (simp add: fetch_prices_def backoff_delays_def)

lemma fetch_retry_follows:
  assumes "Suc k < nat (RETRIES cfg)" and "\<forall>i\<le>k. fails_retryably ev f i"
    and "\<forall>d. sleep_raises ev d = None"
  shows "Suc k < calls (fetch_prices cfg ev f)"
proof -
  from assms(2) have "\<forall>i<Suc k. fails_retryably ev f i" by (simp add: less_Suc_eq_le)
  moreover from assms(3) have "\<forall>i<Suc k. sleep_raises ev (BACKOFF cfg * 2 ^ i) = None" by simp
  ultimately obtain le where
    "fetch_prices cfg ev f
     = fetch_attempts cfg ev f [Suc k..<nat (RETRIES cfg)] le (Suc k) (backoff_delays cfg (Suc k))"
    using fetch_skip [OF assms(1)] by blast
  with fetch_attempts_sleeps [OF assms(3), of cfg f "Suc k" le "backoff_delays cfg (Suc k)"] assms(1)
  show ?thesis by simp
qed

text \<open>
  Claim C4. With \<open>RETRIES\<close> at least 1, one invocation of \<open>fetch_prices\<close> makes at most
  \<open>RETRIES\<close> GET calls. If every attempt raises a \<open>RequestException\<close> (and \<open>time.sleep\<close>
  returns), exactly \<open>RETRIES\<close> calls are made and the exception of the last attempt is
  raised to the caller. If the first attempt returns a parsed body, that body is returned
  after exactly one call and no sleep.
\<close>

theorem retry_bound:
  assumes "1 \<le> RETRIES cfg"
  shows "calls (fetch_prices cfg ev f) \<le> nat (RETRIES cfg)
       \<and> ((\<forall>i<nat (RETRIES cfg). fails_retryably ev f i) \<and> (\<forall>d. sleep_raises ev d = None)
            \<longrightarrow> calls (fetch_prices cfg ev f) = nat (RETRIES cfg)
                \<and> returned (fetch_prices cfg ev f)
                    = try_request (http_get ev f (nat (RETRIES cfg) - 1))
                \<and> fails_retryably ev f (nat (RETRIES cfg) - 1))
       \<and> (\<forall>body. try_request (http_get ev f 0) = Inr body
            \<longrightarrow> fetch_prices cfg ev f = \<lparr>returned = Inr body, calls = 1, sleeps = []\<rparr>)"
proof (intro conjI impI allI)
  show "calls (fetch_prices cfg ev f) \<le> nat (RETRIES cfg)"
    by (rule fetch_prices_calls_le)
next
  assume a: "(\<forall>i<nat (RETRIES cfg). fails_retryably ev f i) \<and> (\<forall>d. sleep_raises ev d = None)"
  define k where "k = nat (RETRIES cfg) - 1"
  from assms have k: "k < nat (RETRIES cfg)" "int k = RETRIES cfg - 1" "Suc k = nat (RETRIES cfg)"
    by (simp_all add: k_def)
  from a k(1) have fk: "fails_retryably ev f k" by blast
  then have "case try_request (http_get ev f k) of
               Inr body \<Rightarrow> True
             | Inl e \<Rightarrow> \<not> is_request_exception e \<or> int k = RETRIES cfg - 1"
    using k(2) by (auto simp: fails_retryably_def split: sum.splits)
  with a k(1) have r: "fetch_prices cfg ev f
      = \<lparr>returned = try_request (http_get ev f k), calls = Suc k, sleeps = backoff_delays cfg k\<rparr>"
    by (intro fetch_stops_at) auto
  from r k(3) show "calls (fetch_prices cfg ev f) = nat (RETRIES cfg)" by simp
  from r show "returned (fetch_prices cfg ev f)
               = try_request (http_get ev f (nat (RETRIES cfg) - 1))"
    by (simp add: k_def)
  from fk show "fails_retryably ev f (nat (RETRIES cfg) - 1)" by (simp add: k_def)
next
  fix body
  assume b: "try_request (http_get ev f 0) = Inr body"
  from assms have "0 < nat (RETRIES cfg)" by simp
  then have "fetch_prices cfg ev f
      = \<lparr>returned = try_request (http_get ev f 0), calls = Suc 0, sleeps = backoff_delays cfg 0\<rparr>"
    by (rule fetch_stops_at) (simp_all add: b)
  with b show "fetch_prices cfg ev f = \<lparr>returned = Inr body, calls = 1, sleeps = []\<rparr>"
    by (simp add: backoff_delays_def)
qed

text \<open>
  Three failing attempts, and a first attempt that succeeds, under the default configuration.
\<close>

theorem retry_bound_witness:
  "calls (fetch_prices default_config upstream_down []) = 3
   \<and> returned (fetch_prices default_config upstream_down [])
       = Inl (Exc RequestException (ustr ''connection refused''))
   \<and> fetch_prices default_config (upstream_items []) []
       = \<lparr>returned = Inr (JObj [(ustr ''Items'', JArr [])]), calls = 1, sleeps = []\<rparr>"
proof -
  have r: "1 \<le> RETRIES default_config" by (simp add: default_config_def)
  have a: "\<forall>i<nat (RETRIES default_config). fails_retryably upstream_down [] i"
    by (simp add: fails_retryably_def upstream_down_def)
  have s: "\<forall>d. sleep_raises upstream_down d = None" by (simp add: upstream_down_def)
  have b: "try_request (http_get (upstream_items []) [] 0) = Inr (JObj [(ustr ''Items'', JArr [])])"
    by (simp add: upstream_items_def)
  from retry_bound [OF r, of upstream_down "[]"] a s
  have "calls (fetch_prices default_config upstream_down []) = nat (RETRIES default_config)"
    and "returned (fetch_prices default_config upstream_down [])
         = try_request (http_get upstream_down [] (nat (RETRIES default_config) - 1))"
    by blast+
  moreover from retry_bound [OF r, of "upstream_items []" "[]"] b
  have "fetch_prices default_config (upstream_items []) []
        = \<lparr>returned = Inr (JObj [(ustr ''Items'', JArr [])]), calls = 1, sleeps = []\<rparr>"
    by blast
  ultimately show ?thesis
    by (simp add: default_config_def upstream_down_def)
qed

text \<open>
  Claim C5. When \<open>time.sleep\<close> returns, the sleeps of one invocation are exactly
  \<open>BACKOFF * 2 ^ i\<close> for \<open>i\<close> from 0 up to the number of calls minus two: one sleep between
  consecutive calls and none after the last call, be it a success or the last failure. A
  failing attempt that is not the last one is followed by a further call. With
  \<open>RETRIES = 3\<close> and \<open>BACKOFF = 0.5\<close> and all attempts failing the sleeps are 0.5 and 1.
\<close>

theorem backoff_schedule:
  assumes "\<forall>d. sleep_raises ev d = None"
  shows "sleeps (fetch_prices cfg ev f)
           = map (\<lambda>i. BACKOFF cfg * 2 ^ i) [0..<calls (fetch_prices cfg ev f) - 1]
       \<and> (\<forall>k. Suc k < nat (RETRIES cfg) \<and> (\<forall>i\<le>k. fails_retryably ev f i)
            \<longrightarrow> Suc k < calls (fetch_prices cfg ev f))
       \<and> (RETRIES cfg = 3 \<and> BACKOFF cfg = 1 / 2 \<and> (\<forall>i<3. fails_retryably ev f i)
            \<longrightarrow> sleeps (fetch_prices cfg ev f) = [1 / 2, 1])"
proof (intro conjI impI allI)
  show "sleeps (fetch_prices cfg ev f)
          = map (\<lambda>i. BACKOFF cfg * 2 ^ i) [0..<calls (fetch_prices cfg ev f) - 1]"
    using fetch_prices_sleeps [OF assms] by (simp add: backoff_delays_def)
next
  fix k
  assume "Suc k < nat (RETRIES cfg) \<and> (\<forall>i\<le>k. fails_retryably ev f i)"
  with assms show "Suc k < calls (fetch_prices cfg ev f)"
    by (intro fetch_retry_follows) auto
next
  assume a: "RETRIES cfg = 3 \<and> BACKOFF cfg = 1 / 2 \<and> (\<forall>i<3. fails_retryably ev f i)"
  then have k: "2 < nat (RETRIES cfg)" "int 2 = RETRIES cfg - 1" by simp_all
  from a have "fails_retryably ev f 2" by simp
  then have "case try_request (http_get ev f 2) of
               Inr body \<Rightarrow> True
             | Inl e \<Rightarrow> \<not> is_request_exception e \<or> int 2 = RETRIES cfg - 1"
    using k(2) by (auto simp: fails_retryably_def split: sum.splits)
  with a assms k(1) have "fetch_prices cfg ev f
      = \<lparr>returned = try_request (http_get ev f 2), calls = Suc 2, sleeps = backoff_delays cfg 2\<rparr>"
    by (intro fetch_stops_at) auto
  moreover have "backoff_delays cfg 2 = [BACKOFF cfg, BACKOFF cfg * 2]"
    by (simp add: backoff_delays_def numeral_2_eq_2)
  ultimately show "sleeps (fetch_prices cfg ev f) = [1 / 2, 1]" using a by simp
qed

text \<open>
  The default configuration against an upstream that is down.
\<close>

theorem backoff_schedule_witness:
  "sleeps (fetch_prices default_config upstream_down []) = [1 / 2, 1]
   \<and> Suc 0 < calls (fetch_prices default_config upstream_down [])"
proof -
  have s: "\<forall>d. sleep_raises upstream_down d = None" by (simp add: upstream_down_def)
  have a: "\<forall>i. fails_retryably upstream_down [] i"
    by (simp add: fails_retryably_def upstream_down_def)
  have c: "RETRIES default_config = 3" "BACKOFF default_config = 1 / 2"
    by (simp_all add: default_config_def)
  from backoff_schedule [OF s, of default_config "[]"] a c
  have "sleeps (fetch_prices default_config upstream_down []) = [1 / 2, 1]" by blast
  moreover from backoff_schedule [OF s, of default_config "[]"] a c
  have "Suc 0 < nat (RETRIES default_config) \<and> (\<forall>i\<le>0. fails_retryably upstream_down [] i)
          \<longrightarrow> Suc 0 < calls (fetch_prices default_config upstream_down [])" by blast
  with a c have "Suc 0 < calls (fetch_prices default_config upstream_down [])" by simp
  ultimately show ?thesis by simp
qed

text \<open>
  Claim C6 says that a 2xx response whose body is not JSON is not retried. From version
  2.27 of \<open>requests\<close> the exception that \<open>resp.json()\<close> raises is a \<open>RequestException\<close>, which
  the \<open>except\<close> clause catches: after such a failure at the first attempt the code sleeps
  0.5 seconds and issues a second GET.
\<close>

theorem decode_error_is_retried:
  "fetch_prices default_config upstream_bad_json_once []
   = \<lparr>returned = Inr (JObj [(ustr ''Items'', JArr [])]), calls = 2, sleeps = [1 / 2]\<rparr>"
  by (simp add: fetch_prices_def default_config_def upstream_bad_json_once_def upt_rec)

text \<open>
  Claim C6, amended. The loop does not tell decode failures from transport failures; it
  retries exactly the exceptions that are instances of \<open>RequestException\<close>. When the attempts
  before attempt \<open>k\<close> failed that way and attempt \<open>k\<close> raises \<open>e\<close>: if \<open>e\<close> is not a
  \<open>RequestException\<close>, it is raised to the caller after \<open>k + 1\<close> calls with no further sleep;
  if \<open>e\<close> is a \<open>RequestException\<close> and \<open>k\<close> is not the last attempt, the code sleeps
  \<open>BACKOFF * 2 ^ k\<close> and makes a further call.
\<close>

theorem retry_policy:
  assumes "k < nat (RETRIES cfg)" and "\<forall>i<k. fails_retryably ev f i"
    and "\<forall>d. sleep_raises ev d = None"
    and "try_request (http_get ev f k) = Inl e"
  shows "(\<not> is_request_exception e
            \<longrightarrow> fetch_prices cfg ev f
                = \<lparr>returned = Inl e, calls = Suc k,
                   sleeps = map (\<lambda>i. BACKOFF cfg * 2 ^ i) [0..<k]\<rparr>)
       \<and> (is_request_exception e \<and> Suc k < nat (RETRIES cfg)
            \<longrightarrow> Suc k < calls (fetch_prices cfg ev f)
                \<and> take (Suc k) (sleeps (fetch_prices cfg ev f))
                    = map (\<lambda>i. BACKOFF cfg * 2 ^ i) [0..<Suc k])"
proof (intro conjI impI)
  assume "\<not> is_request_exception e"
  with assms(4) have "case try_request (http_get ev f k) of
             Inr body \<Rightarrow> True
           | Inl e \<Rightarrow> \<not> is_request_exception e \<or> int k = RETRIES cfg - 1"
    by simp
  with assms(1-3) have "fetch_prices cfg ev f
      = \<lparr>returned = try_request (http_get ev f k), calls = Suc k, sleeps = backoff_delays cfg k\<rparr>"
    by (intro fetch_stops_at) auto
  with assms(4) show "fetch_prices cfg ev f
      = \<lparr>returned = Inl e, calls = Suc k, sleeps = map (\<lambda>i. BACKOFF cfg * 2 ^ i) [0..<k]\<rparr>"
    by (simp add: backoff_delays_def)
next
  assume a: "is_request_exception e \<and> Suc k < nat (RETRIES cfg)"
  with assms(4) have "fails_retryably ev f k" by (simp add: fails_retryably_def)
  with assms(2) have "\<forall>i\<le>k. fails_retryably ev f i" by (auto simp: le_less)
  with a assms(3) show c: "Suc k < calls (fetch_prices cfg ev f)"
    by (intro fetch_retry_follows) auto
  have "take (Suc k) (sleeps (fetch_prices cfg ev f))
        = map (\<lambda>i. BACKOFF cfg * 2 ^ i) (take (Suc k) [0..<calls (fetch_prices cfg ev f) - 1])"
    using fetch_prices_sleeps [OF assms(3), of cfg f] by (simp add: backoff_delays_def take_map)
  also have "take (Suc k) [0..<calls (fetch_prices cfg ev f) - 1] = [0..<Suc k]"
    using c by (simp add: take_upt)
  finally show "take (Suc k) (sleeps (fetch_prices cfg ev f))
                = map (\<lambda>i. BACKOFF cfg * 2 ^ i) [0..<Suc k]" .
qed

text \<open>
  A decode failure raised as \<open>ValueError\<close> is not retried; one raised as a
  \<open>RequestException\<close> is.
\<close>

theorem retry_policy_witness:
  "fetch_prices default_config upstream_value_error []
     = \<lparr>returned = Inl (Exc ValueError (ustr ''Expecting value'')), calls = 1, sleeps = []\<rparr>
   \<and> 1 < calls (fetch_prices default_config upstream_bad_json_once [])
   \<and> take 1 (sleeps (fetch_prices default_config upstream_bad_json_once [])) = [1 / 2]"
proof -
  have k: "0 < nat (RETRIES default_config)" by (simp add: default_config_def)
  have p: "\<forall>i<0::nat. fails_retryably ev [] i" for ev by simp
  have s1: "\<forall>d. sleep_raises upstream_value_error d = None"
    by (simp add: upstream_value_error_def)
  have s2: "\<forall>d. sleep_raises upstream_bad_json_once d = None"
    by (simp add: upstream_bad_json_once_def)
  have t1: "try_request (http_get upstream_value_error [] 0)
            = Inl (Exc ValueError (ustr ''Expecting value''))"
    by (simp add: upstream_value_error_def)
  have t2: "try_request (http_get upstream_bad_json_once [] 0)
            = Inl (Exc RequestException (ustr ''Expecting value''))"
    by (simp add: upstream_bad_json_once_def)
  have "fetch_prices default_config upstream_value_error []
        = \<lparr>returned = Inl (Exc ValueError (ustr ''Expecting value'')), calls = 1, sleeps = []\<rparr>"
    using retry_policy [OF k p s1 t1] by simp
  moreover have "1 < calls (fetch_prices default_config upstream_bad_json_once [])
     \<and> take 1 (sleeps (fetch_prices default_config upstream_bad_json_once [])) = [1 / 2]"
    using retry_policy [OF k p s2 t2] by (simp add: default_config_def)
  ultimately show ?thesis by simp
qed

section \<open>The dispatcher\<close>

lemma mcp_write_frame: "mcp_write rt obj out = out @ mcp_frame (json_dumps rt obj)"
  by (simp add: mcp_write_def mcp_frame_def mcp_header_def Let_def)

lemma one_response_result: "one_response rt req_id out (mcp_write rt (mcp_result req_id v) out)"
  unfolding one_response_def mcp_write_frame by blast

lemma one_response_error: "one_response rt req_id out (mcp_write rt (mcp_error req_id code m) out)"
  unfolding one_response_def mcp_write_frame by blast

lemma bindE_Inr:
  "bindE m f = Inr y \<Longrightarrow> \<exists>x. m = Inr x \<and> f x = Inr y"
  by (cases m) (simp_all add: bindE_def)

lemma tools_call_one_response:
  assumes "tools_call rt cfg ev req_id params out = Inr out'"
  shows "one_response rt req_id out out'"
proof -
  from assms obtain name a r c where
    rest: "(let arguments = or_else a (JObj []);
               region = or_else r (env_default (DEFAULT_REGION cfg));
               currency = or_else c (env_default (DEFAULT_CURRENCY cfg)) in
       if name = JStr (ustr ''price_search'') then
         bindE (py_get arguments (ustr ''sku'') JNull) (\<lambda>sku.
           if \<not> truthy sku then
             Inr (mcp_write rt
                    (mcp_error req_id (- 32602) (ustr ''Missing required argument: sku'')) out)
           else
             bindE (price_search rt cfg ev (py_str rt sku) region currency) (\<lambda>res.
               Inr (mcp_write rt (mcp_result req_id res) out)))
       else if name = JStr (ustr ''cost_estimate'') then
         bindE (py_get arguments (ustr ''sku'') JNull) (\<lambda>sku.
           if \<not> truthy sku then
             Inr (mcp_write rt
                    (mcp_error req_id (- 32602) (ustr ''Missing required argument: sku'')) out)
           else
             bindE (py_get arguments (ustr ''quantity'') (JInt 1)) (\<lambda>qty.
               (case py_int rt qty of
                  None \<Rightarrow>
                    Inr (mcp_write rt
                           (mcp_error req_id (- 32602) (ustr ''quantity must be an integer'')) out)
                | Some qty_int \<Rightarrow>
                    bindE (cost_estimate rt cfg ev (py_str rt sku) qty_int region currency)
                      (\<lambda>res. Inr (mcp_write rt (mcp_result req_id res) out)))))
       else
         Inr (mcp_write rt
                (mcp_error req_id (- 32601) (ustr ''Unknown tool: '' @ py_str rt name)) out))
      = Inr out'"
    unfolding tools_call_def Let_def by (auto dest!: bindE_Inr)
  then show ?thesis
    unfolding Let_def
    by (auto dest!: bindE_Inr split: if_splits option.splits
             simp: one_response_result one_response_error)
qed

lemma handle_try_one_response:
  assumes "handle_try rt cfg ev req_id method params out = Inr out'"
  shows "one_response rt req_id out out'"
  using assms unfolding handle_try_def
  by (auto split: if_splits simp: one_response_result one_response_error
           intro: tools_call_one_response)

text \<open>
  Claim C7. For a message that is an object with a non-null \<open>id\<close>, \<open>handle\<close> appends to
  standard output exactly one frame, carrying a result or an error response with that id,
  whatever the method and whether or not a tool raises. For any other message (not an
  object, or \<open>id\<close> absent or null) it writes nothing.
\<close>

theorem one_response_per_request:
  "(\<forall>kv. msg = JObj kv \<and> dict_get kv (ustr ''id'') \<noteq> JNull
        \<longrightarrow> one_response rt (dict_get kv (ustr ''id'')) out (handle rt cfg ev msg out))
   \<and> ((\<forall>kv. msg = JObj kv \<longrightarrow> dict_get kv (ustr ''id'') = JNull)
        \<longrightarrow> handle rt cfg ev msg out = out)"
proof (intro conjI allI impI)
  fix kv
  assume a: "msg = JObj kv \<and> dict_get kv (ustr ''id'') \<noteq> JNull"
  let ?id = "dict_get kv (ustr ''id'')"
  let ?t = "handle_try rt cfg ev ?id (dict_get kv (ustr ''method''))
              (or_else (dict_get kv (ustr ''params'')) (JObj [])) out"
  show "one_response rt ?id out (handle rt cfg ev msg out)"
  proof (cases ?t)
    case (Inl e)
    with a have "handle rt cfg ev msg out
        = mcp_write rt (mcp_error ?id (- 32000) (ustr ''Server error: '' @ exc_str e)) out"
      by (simp add: handle_def Let_def)
    then show ?thesis by (simp add: one_response_error)
  next
    case (Inr out')
    with a have "handle rt cfg ev msg out = out'" by (simp add: handle_def Let_def)
    with handle_try_one_response [OF Inr] show ?thesis by simp
  qed
next
  assume "\<forall>kv. msg = JObj kv \<longrightarrow> dict_get kv (ustr ''id'') = JNull"
  then show "handle rt cfg ev msg out = out"
    by (cases msg) (simp_all add: handle_def Let_def)
qed

lemma or_else_dict: "or_else (JObj kv) (JObj []) = JObj kv"
  by (cases kv) (simp_all add: or_else_def)

lemma py_get_dict: "py_get (JObj kv) key JNull = Inr (dict_get kv key)"
  by (simp add: py_get_def dict_get_def)

lemma tool_call_partsD:
  assumes "tool_call_parts msg = Some (rid, name, akv)"
  obtains kv pkv where "msg = JObj kv" "dict_get kv (ustr ''id'') = rid" "rid \<noteq> JNull"
    "dict_get kv (ustr ''method'') = JStr (ustr ''tools/call'')"
    "dict_get kv (ustr ''params'') = JObj pkv"
    "dict_get pkv (ustr ''name'') = name" "dict_get pkv (ustr ''arguments'') = JObj akv"
  using assms unfolding tool_call_parts_def
  by (auto split: json.splits if_splits)

lemma literal_neq:
  "ustr ''tools/call'' \<noteq> ustr ''initialize''" "ustr ''tools/call'' \<noteq> ustr ''ping''"
  "ustr ''tools/call'' \<noteq> ustr ''tools/list''" "ustr ''cost_estimate'' \<noteq> ustr ''price_search''"
  by (simp_all add: ustr_def)

lemma handle_tools_call:
  assumes "tool_call_parts msg = Some (rid, name, akv)"
  shows "\<exists>pkv. dict_get pkv (ustr ''name'') = name \<and> dict_get pkv (ustr ''arguments'') = JObj akv
     \<and> handle rt cfg ev msg out
       = (case tools_call rt cfg ev rid (JObj pkv) out of
            Inr out' \<Rightarrow> out' | Inl e \<Rightarrow> mcp_write rt (server_error rid e) out)"
proof -
  from assms obtain kv pkv where p: "msg = JObj kv" "dict_get kv (ustr ''id'') = rid" "rid \<noteq> JNull"
    "dict_get kv (ustr ''method'') = JStr (ustr ''tools/call'')"
    "dict_get kv (ustr ''params'') = JObj pkv"
    "dict_get pkv (ustr ''name'') = name" "dict_get pkv (ustr ''arguments'') = JObj akv"
    by (rule tool_call_partsD)
  then have "handle rt cfg ev msg out
       = (case tools_call rt cfg ev rid (JObj pkv) out of
            Inr out' \<Rightarrow> out' | Inl e \<Rightarrow> mcp_write rt (server_error rid e) out)"
    unfolding server_error_def
    by (simp add: handle_def handle_try_def Let_def or_else_dict literal_neq)
  with p show ?thesis by blast
qed

lemma handle_price_search_call:
  assumes "tool_call_parts msg = Some (rid, JStr (ustr ''price_search''), akv)"
    and "truthy (dict_get akv (ustr ''sku''))"
  shows "handle rt cfg ev msg out
         = (case price_search rt cfg ev (py_str rt (dict_get akv (ustr ''sku'')))
                   (call_region cfg akv) (call_currency cfg akv) of
              Inr res \<Rightarrow> mcp_write rt (mcp_result rid res) out
            | Inl e \<Rightarrow> mcp_write rt (server_error rid e) out)"
proof -
  from handle_tools_call [OF assms(1)] obtain pkv where
    p: "dict_get pkv (ustr ''name'') = JStr (ustr ''price_search'')"
       "dict_get pkv (ustr ''arguments'') = JObj akv"
    and h: "handle rt cfg ev msg out
       = (case tools_call rt cfg ev rid (JObj pkv) out of
            Inr out' \<Rightarrow> out' | Inl e \<Rightarrow> mcp_write rt (server_error rid e) out)"
    by blast
  have "tools_call rt cfg ev rid (JObj pkv) out
        = bindE (price_search rt cfg ev (py_str rt (dict_get akv (ustr ''sku'')))
                   (call_region cfg akv) (call_currency cfg akv))
            (\<lambda>res. Inr (mcp_write rt (mcp_result rid res) out))"
    using p assms(2)
    by (simp add: tools_call_def py_get_dict bindE_def or_else_dict Let_def
                  call_region_def call_currency_def)
  with h show ?thesis by (simp add: bindE_def split: sum.splits)
qed

lemma handle_cost_estimate_call:
  assumes "tool_call_parts msg = Some (rid, JStr (ustr ''cost_estimate''), akv)"
    and "truthy (dict_get akv (ustr ''sku''))"
    and "py_int rt (case map_of akv (ustr ''quantity'') of Some v \<Rightarrow> v | None \<Rightarrow> JInt 1) = Some q"
  shows "handle rt cfg ev msg out
         = (case cost_estimate rt cfg ev (py_str rt (dict_get akv (ustr ''sku''))) q
                   (call_region cfg akv) (call_currency cfg akv) of
              Inr res \<Rightarrow> mcp_write rt (mcp_result rid res) out
            | Inl e \<Rightarrow> mcp_write rt (server_error rid e) out)"
proof -
  from handle_tools_call [OF assms(1)] obtain pkv where
    p: "dict_get pkv (ustr ''name'') = JStr (ustr ''cost_estimate'')"
       "dict_get pkv (ustr ''arguments'') = JObj akv"
    and h: "handle rt cfg ev msg out
       = (case tools_call rt cfg ev rid (JObj pkv) out of
            Inr out' \<Rightarrow> out' | Inl e \<Rightarrow> mcp_write rt (server_error rid e) out)"
    by blast
  have "py_get (JObj akv) (ustr ''quantity'') (JInt 1)
        = Inr (case map_of akv (ustr ''quantity'') of Some v \<Rightarrow> v | None \<Rightarrow> JInt 1)"
    by (simp add: py_get_def)
  then have "tools_call rt cfg ev rid (JObj pkv) out
        = bindE (cost_estimate rt cfg ev (py_str rt (dict_get akv (ustr ''sku''))) q
                   (call_region cfg akv) (call_currency cfg akv))
            (\<lambda>res. Inr (mcp_write rt (mcp_result rid res) out))"
    using p assms(2,3)
    by (simp add: tools_call_def py_get_dict bindE_def or_else_dict Let_def
                  call_region_def call_currency_def literal_neq)
  with h show ?thesis by (simp add: bindE_def split: sum.splits)
qed

lemma price_search_items:
  assumes "strip sku \<noteq> []" and "length sku \<le> 200"
    and "returned (fetch_prices cfg ev (filter_expr_of rt sku region currency)) = Inr (JObj data)"
    and "map_of data (ustr ''Items'') = Some (JArr xs)"
  shows "price_search rt cfg ev sku region currency
         = Inr (JObj [(ustr ''status'', JStr (ustr ''ok'')),
                      (ustr ''tool'', JStr (ustr ''price_search'')),
                      (ustr ''sku'', JStr sku),
                      (ustr ''count'', JInt (int (length xs))),
                      (ustr ''items'', JArr (take 5 xs))])"
  using assms
  by (simp add: price_search_def bindE_def py_get_def py_len_def py_slice5_def Let_def)

lemma cost_estimate_not_found:
  assumes "price_search rt cfg ev sku region currency = Inr (JObj skv)"
    and "map_of skv (ustr ''items'') = Some (JArr [])"
  shows "cost_estimate rt cfg ev sku quantity region currency
         = Inr (JObj [(ustr ''status'', JStr (ustr ''not-found'')),
                      (ustr ''tool'', JStr (ustr ''cost_estimate'')),
                      (ustr ''sku'', JStr sku)])"
  using assms by (simp add: cost_estimate_def bindE_def py_get_def)

lemma cost_estimate_shape:
  assumes "cost_estimate rt cfg ev sku quantity region currency = Inr res"
  shows "res = JObj [(ustr ''status'', JStr (ustr ''not-found'')),
                     (ustr ''tool'', JStr (ustr ''cost_estimate'')),
                     (ustr ''sku'', JStr sku)]
       \<or> (\<exists>price monthly.
            res = JObj [(ustr ''status'', JStr (ustr ''ok'')),
                        (ustr ''tool'', JStr (ustr ''cost_estimate'')),
                        (ustr ''sku'', JStr sku),
                        (ustr ''quantity'', JInt quantity),
                        (ustr ''unit_price'', price),
                        (ustr ''monthly_usd'', monthly)])"
  using assms unfolding cost_estimate_def Let_def
  by (auto dest!: bindE_Inr split: if_splits)

text \<open>
  Claim C1. For an object \<open>X\<close> that the JSON library serialises and reads back as \<open>X\<close>,
  \<open>_mcp_write\<close> writes \<open>Content-Length: \<close>, the decimal length, CR LF CR LF and the
  serialised bytes, nothing else; the decode loop run on these bytes cuts out exactly one
  frame, leaves an empty buffer, and the body of the frame deserialises to \<open>X\<close>.
\<close>

theorem framing_round_trip:
  assumes "json_loads rt (json_dumps rt X) = Some X"
  shows "mcp_write rt X []
           = ''Content-Length: '' @ str_nat (length (json_dumps rt X)) @ CRLFCRLF @ json_dumps rt X
       \<and> process_buffer (mcp_write rt X []) = ([json_dumps rt X], [])
       \<and> map (json_loads rt) (fst (process_buffer (mcp_write rt X []))) = [Some X]"
proof -
  have w: "mcp_write rt X [] = mcp_frame (json_dumps rt X)"
    by (simp add: mcp_write_frame)
  have p: "process_buffer (mcp_frame (json_dumps rt X)) = ([json_dumps rt X], [])"
    using process_buffer_mcp_frame [of "json_dumps rt X" "[]"] by (simp add: process_buffer_empty)
  from w p assms show ?thesis
    by (simp add: mcp_frame_def mcp_header_def)
qed

text \<open>
  The round trip at the object \<open>True\<close> with the sample runtime.
\<close>

theorem framing_round_trip_witness:
  "json_loads sample_runtime (json_dumps sample_runtime (JBool True)) = Some (JBool True)
   \<and> process_buffer (mcp_write sample_runtime (JBool True) [])
       = ([json_dumps sample_runtime (JBool True)], [])
   \<and> map (json_loads sample_runtime)
        (fst (process_buffer (mcp_write sample_runtime (JBool True) []))) = [Some (JBool True)]"
proof -
  have h: "json_loads sample_runtime (json_dumps sample_runtime (JBool True)) = Some (JBool True)"
    by (simp add: sample_runtime_def sample_loads_def)
  from framing_round_trip [OF h] h show ?thesis by blast
qed

text \<open>
  A \<open>tools/call\<close> request with id 1 against an upstream that is down, and a \<open>ping\<close>
  notification.
\<close>

theorem one_response_per_request_witness:
  "one_response sample_runtime (JInt 1) []
     (handle sample_runtime default_config upstream_down (b2s_request ''price_search'') [])
   \<and> handle sample_runtime default_config upstream_down
        (JObj [(ustr ''method'', JStr (ustr ''ping''))]) [] = []"
proof -
  let ?kv = "[(ustr ''jsonrpc'', JStr (ustr ''2.0'')), (ustr ''id'', JInt 1),
           (ustr ''method'', JStr (ustr ''tools/call'')),
           (ustr ''params'', JObj [(ustr ''name'', JStr (ustr ''price_search'')),
                                   (ustr ''arguments'', JObj [(ustr ''sku'', JStr (ustr ''B2s''))])])]"
  let ?ping = "JObj [(ustr ''method'', JStr (ustr ''ping''))]"
  have m: "b2s_request ''price_search'' = JObj ?kv" by (simp add: b2s_request_def)
  have i: "dict_get ?kv (ustr ''id'') = JInt 1" by (simp add: dict_get_def ustr_def)
  have n: "\<forall>kv. ?ping = JObj kv \<longrightarrow> dict_get kv (ustr ''id'') = JNull"
    by (simp add: dict_get_def ustr_def)
  have "\<forall>kv. b2s_request ''price_search'' = JObj kv \<and> dict_get kv (ustr ''id'') \<noteq> JNull
        \<longrightarrow> one_response sample_runtime (dict_get kv (ustr ''id'')) []
              (handle sample_runtime default_config upstream_down (b2s_request ''price_search'') [])"
    using one_response_per_request [of "b2s_request ''price_search''" sample_runtime "[]"
            default_config upstream_down]
    by (rule conjunct1)
  then have "b2s_request ''price_search'' = JObj ?kv \<and> dict_get ?kv (ustr ''id'') \<noteq> JNull
        \<longrightarrow> one_response sample_runtime (dict_get ?kv (ustr ''id'')) []
              (handle sample_runtime default_config upstream_down (b2s_request ''price_search'') [])"
    by (rule spec)
  with m i have a: "one_response sample_runtime (JInt 1) []
     (handle sample_runtime default_config upstream_down (b2s_request ''price_search'') [])"
    by simp
  have "(\<forall>kv. ?ping = JObj kv \<longrightarrow> dict_get kv (ustr ''id'') = JNull)
        \<longrightarrow> handle sample_runtime default_config upstream_down ?ping [] = []"
    using one_response_per_request [of ?ping sample_runtime "[]" default_config upstream_down]
    by (rule conjunct2)
  with n have "handle sample_runtime default_config upstream_down ?ping [] = []"
    by (rule rev_mp)
  with a show ?thesis by (rule conjI)
qed

text \<open>
  Claim C8 says that an object without a usable \<open>method\<close> is ignored even when it has a
  non-null id. The message \<open>{"id": 1}\<close> gets an error response.
\<close>

theorem id_without_method_counterexample:
  "handle sample_runtime default_config upstream_down (JObj [(ustr ''id'', JInt 1)]) []
     = mcp_frame (json_dumps sample_runtime
         (mcp_error (JInt 1) (- 32601) (ustr ''Unknown method: None'')))
   \<and> handle sample_runtime default_config upstream_down (JObj [(ustr ''id'', JInt 1)]) [] \<noteq> []"
proof -
  have "handle sample_runtime default_config upstream_down (JObj [(ustr ''id'', JInt 1)]) []
     = mcp_write sample_runtime (mcp_error (JInt 1) (- 32601) (ustr ''Unknown method: None'')) []"
    by (simp add: handle_def handle_try_def dict_get_def or_else_def py_str_def ustr_def)
  then show ?thesis
    by (simp add: mcp_write_frame mcp_frame_def mcp_header_def)
qed

text \<open>
  Claim C8, amended. A message that is not an object is ignored. An object whose
  \<open>method\<close> is absent or not a string is ignored when its \<open>id\<close> is absent or null; when its
  \<open>id\<close> is not null, \<open>handle\<close> writes one error response with code -32601 carrying the id.
\<close>

theorem unusable_method_handling:
  "((\<forall>kv. msg \<noteq> JObj kv) \<longrightarrow> handle rt cfg ev msg out = out)
   \<and> (\<forall>kv. msg = JObj kv \<and> (\<forall>s. dict_get kv (ustr ''method'') \<noteq> JStr s)
        \<longrightarrow> handle rt cfg ev msg out
            = (if dict_get kv (ustr ''id'') = JNull then out
               else mcp_write rt
                      (mcp_error (dict_get kv (ustr ''id'')) (- 32601)
                         (ustr ''Unknown method: '' @ py_str rt (dict_get kv (ustr ''method''))))
                      out))"
proof (intro conjI allI impI)
  assume "\<forall>kv. msg \<noteq> JObj kv"
  then show "handle rt cfg ev msg out = out"
    by (cases msg) (simp_all add: handle_def)
next
  fix kv
  assume "msg = JObj kv \<and> (\<forall>s. dict_get kv (ustr ''method'') \<noteq> JStr s)"
  then show "handle rt cfg ev msg out
            = (if dict_get kv (ustr ''id'') = JNull then out
               else mcp_write rt
                      (mcp_error (dict_get kv (ustr ''id'')) (- 32601)
                         (ustr ''Unknown method: '' @ py_str rt (dict_get kv (ustr ''method''))))
                      out)"
    by (simp add: handle_def handle_try_def Let_def)
qed

text \<open>
  A list, an object without \<open>id\<close> and \<open>method\<close>, and the object \<open>{"id": 1}\<close>.
\<close>

theorem unusable_method_handling_witness:
  "handle sample_runtime default_config upstream_down (JArr [JInt 1]) [] = []
   \<and> handle sample_runtime default_config upstream_down (JObj [(ustr ''x'', JInt 1)]) [] = []
   \<and> handle sample_runtime default_config upstream_down (JObj [(ustr ''id'', JInt 1)]) []
       = mcp_write sample_runtime
           (mcp_error (JInt 1) (- 32601) (ustr ''Unknown method: None'')) []"
proof -
  have a: "\<forall>kv. JArr [JInt 1] \<noteq> JObj kv" by simp
  have b: "\<forall>s. dict_get [(ustr ''x'', JInt 1)] (ustr ''method'') \<noteq> JStr s"
    by (simp add: dict_get_def ustr_def)
  have c: "\<forall>s. dict_get [(ustr ''id'', JInt 1)] (ustr ''method'') \<noteq> JStr s"
    by (simp add: dict_get_def ustr_def)
  have "handle sample_runtime default_config upstream_down (JArr [JInt 1]) [] = []"
    using unusable_method_handling [of "JArr [JInt 1]" sample_runtime default_config upstream_down "[]"] a
    by blast
  moreover have "handle sample_runtime default_config upstream_down (JObj [(ustr ''x'', JInt 1)]) [] = []"
    using unusable_method_handling [of "JObj [(ustr ''x'', JInt 1)]" sample_runtime default_config
            upstream_down "[]"] b
    by (simp add: dict_get_def ustr_def)
  moreover have "handle sample_runtime default_config upstream_down (JObj [(ustr ''id'', JInt 1)]) []
       = mcp_write sample_runtime
           (mcp_error (JInt 1) (- 32601) (ustr ''Unknown method: None'')) []"
    using unusable_method_handling [of "JObj [(ustr ''id'', JInt 1)]" sample_runtime default_config
            upstream_down "[]"] c
    by (simp add: dict_get_def ustr_def py_str_def)
  ultimately show ?thesis by simp
qed

text \<open>
  Claim C9. When the upstream returns an \<open>Items\<close> list of length \<open>n\<close>, the result of
  \<open>price_search\<close> has \<open>count = n\<close> and \<open>items\<close> equal to the first five items, \<open>min n 5\<close> of
  them; a \<open>tools/call\<close> of \<open>price_search\<close> writes that result as its response; and
  \<open>cost_estimate\<close> returns status \<open>not-found\<close> when the underlying \<open>price_search\<close> returns an
  empty items list.
\<close>

theorem price_search_truncation:
  "(strip sku \<noteq> [] \<and> length sku \<le> 200
      \<and> returned (fetch_prices cfg ev (filter_expr_of rt sku region currency)) = Inr (JObj data)
      \<and> map_of data (ustr ''Items'') = Some (JArr xs)
     \<longrightarrow> price_search rt cfg ev sku region currency
           = Inr (JObj [(ustr ''status'', JStr (ustr ''ok'')),
                        (ustr ''tool'', JStr (ustr ''price_search'')),
                        (ustr ''sku'', JStr sku),
                        (ustr ''count'', JInt (int (length xs))),
                        (ustr ''items'', JArr (take 5 xs))])
         \<and> length (take 5 xs) = min (length xs) 5)
   \<and> (tool_call_parts msg = Some (rid, JStr (ustr ''price_search''), akv)
      \<and> truthy (dict_get akv (ustr ''sku''))
      \<and> price_search rt cfg ev (py_str rt (dict_get akv (ustr ''sku'')))
           (call_region cfg akv) (call_currency cfg akv) = Inr res
     \<longrightarrow> handle rt cfg ev msg out = mcp_write rt (mcp_result rid res) out)
   \<and> (price_search rt cfg ev sku region currency = Inr (JObj skv)
      \<and> map_of skv (ustr ''items'') = Some (JArr [])
     \<longrightarrow> cost_estimate rt cfg ev sku quantity region currency
           = Inr (JObj [(ustr ''status'', JStr (ustr ''not-found'')),
                        (ustr ''tool'', JStr (ustr ''cost_estimate'')),
                        (ustr ''sku'', JStr sku)]))"
proof (intro conjI impI)
  assume "strip sku \<noteq> [] \<and> length sku \<le> 200
      \<and> returned (fetch_prices cfg ev (filter_expr_of rt sku region currency)) = Inr (JObj data)
      \<and> map_of data (ustr ''Items'') = Some (JArr xs)"
  then show "price_search rt cfg ev sku region currency
           = Inr (JObj [(ustr ''status'', JStr (ustr ''ok'')),
                        (ustr ''tool'', JStr (ustr ''price_search'')),
                        (ustr ''sku'', JStr sku),
                        (ustr ''count'', JInt (int (length xs))),
                        (ustr ''items'', JArr (take 5 xs))])"
    by (elim conjE) (rule price_search_items)
  show "length (take 5 xs) = min (length xs) 5" by simp
next
  assume "tool_call_parts msg = Some (rid, JStr (ustr ''price_search''), akv)
      \<and> truthy (dict_get akv (ustr ''sku''))
      \<and> price_search rt cfg ev (py_str rt (dict_get akv (ustr ''sku'')))
           (call_region cfg akv) (call_currency cfg akv) = Inr res"
  then show "handle rt cfg ev msg out = mcp_write rt (mcp_result rid res) out"
    using handle_price_search_call [of msg rid akv rt cfg ev out] by simp
next
  assume "price_search rt cfg ev sku region currency = Inr (JObj skv)
      \<and> map_of skv (ustr ''items'') = Some (JArr [])"
  then show "cost_estimate rt cfg ev sku quantity region currency
           = Inr (JObj [(ustr ''status'', JStr (ustr ''not-found'')),
                        (ustr ''tool'', JStr (ustr ''cost_estimate'')),
                        (ustr ''sku'', JStr sku)])"
    by (elim conjE) (rule cost_estimate_not_found)
qed

lemma fetch_upstream_items:
  "returned (fetch_prices default_config (upstream_items xs) f) = Inr (JObj [(ustr ''Items'', JArr xs)])"
  by (simp add: fetch_prices_def default_config_def upstream_items_def upt_rec)

lemma strip_B2s: "strip (ustr ''B2s'') \<noteq> []" "length (ustr ''B2s'') \<le> 200"
  by (simp_all add: strip_def ustr_def is_space_def)

lemma b2s_request_parts:
  "tool_call_parts (b2s_request tool)
   = Some (JInt 1, JStr (ustr tool), [(ustr ''sku'', JStr (ustr ''B2s''))])"
  by (simp add: tool_call_parts_def b2s_request_def dict_get_def ustr_def)

lemma b2s_sku:
  "dict_get [(ustr ''sku'', JStr (ustr ''B2s''))] (ustr ''sku'') = JStr (ustr ''B2s'')"
  by (simp add: dict_get_def)

text \<open>
  The request for sku \<open>B2s\<close> against an upstream returning ten items, and \<open>cost_estimate\<close>
  against an upstream returning none.
\<close>

theorem price_search_truncation_witness:
  "price_search sample_runtime default_config (upstream_items ten_items) (ustr ''B2s'') JNull JNull
     = Inr (JObj [(ustr ''status'', JStr (ustr ''ok'')),
                  (ustr ''tool'', JStr (ustr ''price_search'')),
                  (ustr ''sku'', JStr (ustr ''B2s'')),
                  (ustr ''count'', JInt 10),
                  (ustr ''items'', JArr (take 5 ten_items))])
   \<and> handle sample_runtime default_config (upstream_items ten_items) (b2s_request ''price_search'') []
       = mcp_write sample_runtime
           (mcp_result (JInt 1)
              (JObj [(ustr ''status'', JStr (ustr ''ok'')),
                     (ustr ''tool'', JStr (ustr ''price_search'')),
                     (ustr ''sku'', JStr (ustr ''B2s'')),
                     (ustr ''count'', JInt 10),
                     (ustr ''items'', JArr (take 5 ten_items))])) []
   \<and> cost_estimate sample_runtime default_config (upstream_items []) (ustr ''B2s'') 1 JNull JNull
       = Inr (JObj [(ustr ''status'', JStr (ustr ''not-found'')),
                    (ustr ''tool'', JStr (ustr ''cost_estimate'')),
                    (ustr ''sku'', JStr (ustr ''B2s''))])"
proof -
  let ?res = "\<lambda>xs. JObj [(ustr ''status'', JStr (ustr ''ok'')),
                  (ustr ''tool'', JStr (ustr ''price_search'')),
                  (ustr ''sku'', JStr (ustr ''B2s'')),
                  (ustr ''count'', JInt (int (length xs))),
                  (ustr ''items'', JArr (take 5 xs))]"
  let ?akv = "[(ustr ''sku'', JStr (ustr ''B2s''))]"
  have items: "map_of [(ustr ''Items'', JArr xs)] (ustr ''Items'') = Some (JArr xs)" for xs :: "json list"
    by simp
  have ps: "price_search sample_runtime default_config (upstream_items xs) (ustr ''B2s'') JNull JNull
            = Inr (?res xs)" for xs
    using price_search_truncation [where sku = "ustr ''B2s''" and cfg = default_config
            and ev = "upstream_items xs" and rt = sample_runtime and region = JNull
            and currency = JNull and data = "[(ustr ''Items'', JArr xs)]" and xs = xs]
          strip_B2s fetch_upstream_items items
    by blast
  have len: "int (length ten_items) = 10" by (simp add: ten_items_def)
  have reg: "call_region default_config ?akv = JNull" "call_currency default_config ?akv = JNull"
    by (simp_all add: call_region_def call_currency_def dict_get_def ustr_def or_else_def
                      env_default_def default_config_def)
  have sku: "py_str sample_runtime (dict_get ?akv (ustr ''sku'')) = ustr ''B2s''"
    by (simp add: b2s_sku py_str_def)
  have tr: "truthy (dict_get ?akv (ustr ''sku''))"
    by (simp add: dict_get_def ustr_def)
  have ps': "price_search sample_runtime default_config (upstream_items ten_items)
               (py_str sample_runtime (dict_get ?akv (ustr ''sku'')))
               (call_region default_config ?akv) (call_currency default_config ?akv)
             = Inr (?res ten_items)"
    by (simp only: sku reg ps)
  have h: "handle sample_runtime default_config (upstream_items ten_items)
             (b2s_request ''price_search'') []
           = mcp_write sample_runtime (mcp_result (JInt 1) (?res ten_items)) []"
    using price_search_truncation [where msg = "b2s_request ''price_search''" and rid = "JInt 1"
            and akv = ?akv and rt = sample_runtime and cfg = default_config
            and ev = "upstream_items ten_items" and res = "?res ten_items" and out = "[]"]
          b2s_request_parts [of "''price_search''"] tr ps'
    by blast
  have e: "map_of [(ustr ''status'', JStr (ustr ''ok'')),
                  (ustr ''tool'', JStr (ustr ''price_search'')),
                  (ustr ''sku'', JStr (ustr ''B2s'')),
                  (ustr ''count'', JInt (int (length ([]::json list)))),
                  (ustr ''items'', JArr (take 5 []))] (ustr ''items'') = Some (JArr [])"
    by (simp add: ustr_def)
  have ce: "cost_estimate sample_runtime default_config (upstream_items []) (ustr ''B2s'') 1 JNull JNull
       = Inr (JObj [(ustr ''status'', JStr (ustr ''not-found'')),
                    (ustr ''tool'', JStr (ustr ''cost_estimate'')),
                    (ustr ''sku'', JStr (ustr ''B2s''))])"
    using price_search_truncation [where sku = "ustr ''B2s''" and cfg = default_config
            and ev = "upstream_items []" and rt = sample_runtime and region = JNull
            and currency = JNull and quantity = 1
            and skv = "[(ustr ''status'', JStr (ustr ''ok'')),
                  (ustr ''tool'', JStr (ustr ''price_search'')),
                  (ustr ''sku'', JStr (ustr ''B2s'')),
                  (ustr ''count'', JInt (int (length ([]::json list)))),
                  (ustr ''items'', JArr (take 5 []))]"]
          ps [of "[]"] e
    by blast
  from ps [of ten_items] h ce show ?thesis by (simp only: len)
qed

lemma response_neq:
  "mcp_result rid res \<noteq> mcp_error rid (- 32602) m"
  "server_error rid e \<noteq> mcp_error rid (- 32602) m"
  by (simp_all add: mcp_result_def mcp_error_def server_error_def ustr_def)

lemma mcp_frame_inject: "mcp_frame p = mcp_frame q \<Longrightarrow> p = q"
proof -
  assume "mcp_frame p = mcp_frame q"
  then have "fst (process_buffer (mcp_frame p @ [])) = fst (process_buffer (mcp_frame q @ []))"
    by simp
  then show "p = q" by (simp only: process_buffer_mcp_frame fst_conv list.inject)
qed

lemma mcp_write_neq:
  "json_dumps rt a \<noteq> json_dumps rt b \<Longrightarrow> mcp_write rt a out \<noteq> mcp_write rt b out"
  by (auto simp: mcp_write_frame dest: mcp_frame_inject)

lemma cost_estimate_first_item:
  assumes "strip sku \<noteq> []" and "length sku \<le> 200"
    and "returned (fetch_prices cfg ev (filter_expr_of rt sku region currency)) = Inr (JObj data)"
    and "map_of data (ustr ''Items'') = Some (JArr (item # rest))"
  shows "cost_estimate rt cfg ev sku quantity region currency
         = bindE (py_get item (ustr ''retailPrice'') (JFloat (Finite 0))) (\<lambda>p.
             bindE (py_mul rt (or_else p (JFloat (Finite 0))) (JInt quantity)) (\<lambda>pq.
             bindE (py_mul rt pq (JInt 730)) (\<lambda>monthly.
               Inr (estimate_ok sku quantity (or_else p (JFloat (Finite 0))) monthly))))"
proof -
  have "price_search rt cfg ev sku region currency
         = Inr (JObj [(ustr ''status'', JStr (ustr ''ok'')),
                      (ustr ''tool'', JStr (ustr ''price_search'')),
                      (ustr ''sku'', JStr sku),
                      (ustr ''count'', JInt (int (length (item # rest)))),
                      (ustr ''items'', JArr (take 5 (item # rest)))])"
    using assms by (rule price_search_items)
  moreover have "map_of [(ustr ''status'', JStr (ustr ''ok'')),
                      (ustr ''tool'', JStr (ustr ''price_search'')),
                      (ustr ''sku'', JStr sku),
                      (ustr ''count'', JInt (int (length (item # rest)))),
                      (ustr ''items'', JArr (take 5 (item # rest)))] (ustr ''items'')
                 = Some (JArr (item # take 4 rest))"
    by (simp add: ustr_def)
  ultimately show ?thesis
    unfolding cost_estimate_def
    by (simp add: bindE_def py_get_def py_item0_def estimate_ok_def Let_def)
qed

lemma cost_estimate_found_shape:
  assumes "strip sku \<noteq> []" and "length sku \<le> 200"
    and "returned (fetch_prices cfg ev (filter_expr_of rt sku region currency)) = Inr (JObj data)"
    and "map_of data (ustr ''Items'') = Some (JArr (item # rest))"
    and "cost_estimate rt cfg ev sku quantity region currency = Inr res"
  shows "\<exists>price monthly. res = estimate_ok sku quantity price monthly"
  using assms(5) unfolding cost_estimate_first_item [OF assms(1-4)]
  by (auto dest!: bindE_Inr)

lemma cost_estimate_found:
  assumes "strip sku \<noteq> []" and "length sku \<le> 200"
    and "returned (fetch_prices cfg ev (filter_expr_of rt sku region currency)) = Inr (JObj data)"
    and "map_of data (ustr ''Items'') = Some (JArr (JObj ikv # rest))"
    and "py_mul rt (unit_price_of ikv) (JInt quantity) = Inr pq"
    and "py_mul rt pq (JInt 730) = Inr monthly"
  shows "cost_estimate rt cfg ev sku quantity region currency
         = Inr (estimate_ok sku quantity (unit_price_of ikv) monthly)"
proof -
  have "py_get (JObj ikv) (ustr ''retailPrice'') (JFloat (Finite 0))
        = Inr (case map_of ikv (ustr ''retailPrice'') of Some v \<Rightarrow> v | None \<Rightarrow> JFloat (Finite 0))"
    by (simp add: py_get_def)
  with assms(5,6) show ?thesis
    unfolding cost_estimate_first_item [OF assms(1-4)]
    by (simp add: bindE_def unit_price_of_def)
qed

text \<open>
  Claim C10. A \<open>tools/call\<close> of \<open>cost_estimate\<close> with a non-empty \<open>sku\<close> and no \<open>quantity\<close> key
  invokes \<open>cost_estimate\<close> with quantity 1: the response is its result, or the server error
  for the exception it raises, never the invalid-params error -32602. When the upstream
  returns a non-empty \<open>Items\<close> list, every result that \<open>cost_estimate\<close> returns is the \<open>ok\<close>
  dictionary with \<open>quantity\<close> 1; and when the first item is a dictionary and the two
  multiplications succeed, \<open>cost_estimate\<close> returns that dictionary with the item's price
  and \<open>handle\<close> writes it as the result.
\<close>

theorem cost_estimate_default_quantity:
  assumes "tool_call_parts msg = Some (rid, JStr (ustr ''cost_estimate''), akv)"
    and "truthy (dict_get akv (ustr ''sku''))"
    and "map_of akv (ustr ''quantity'') = None"
  shows "handle rt cfg ev msg out
           = (case cost_estimate rt cfg ev (py_str rt (dict_get akv (ustr ''sku''))) 1
                     (call_region cfg akv) (call_currency cfg akv) of
                Inr res \<Rightarrow> mcp_write rt (mcp_result rid res) out
              | Inl e \<Rightarrow> mcp_write rt (server_error rid e) out)
       \<and> (\<exists>r. handle rt cfg ev msg out = mcp_write rt r out
              \<and> (\<forall>m. r \<noteq> mcp_error rid (- 32602) m))
       \<and> (\<forall>res. cost_estimate rt cfg ev (py_str rt (dict_get akv (ustr ''sku''))) 1
                    (call_region cfg akv) (call_currency cfg akv) = Inr res
              \<longrightarrow> res = JObj [(ustr ''status'', JStr (ustr ''not-found'')),
                              (ustr ''tool'', JStr (ustr ''cost_estimate'')),
                              (ustr ''sku'', JStr (py_str rt (dict_get akv (ustr ''sku''))))]
                \<or> (\<exists>price monthly.
                      res = JObj [(ustr ''status'', JStr (ustr ''ok'')),
                                  (ustr ''tool'', JStr (ustr ''cost_estimate'')),
                                  (ustr ''sku'', JStr (py_str rt (dict_get akv (ustr ''sku'')))),
                                  (ustr ''quantity'', JInt 1),
                                  (ustr ''unit_price'', price),
                                  (ustr ''monthly_usd'', monthly)]))
       \<and> (\<forall>data item rest.
            strip (py_str rt (dict_get akv (ustr ''sku''))) \<noteq> []
            \<and> length (py_str rt (dict_get akv (ustr ''sku''))) \<le> 200
            \<and> returned (fetch_prices cfg ev
                 (filter_expr_of rt (py_str rt (dict_get akv (ustr ''sku'')))
                    (call_region cfg akv) (call_currency cfg akv))) = Inr (JObj data)
            \<and> map_of data (ustr ''Items'') = Some (JArr (item # rest))
            \<longrightarrow> (\<forall>res. cost_estimate rt cfg ev (py_str rt (dict_get akv (ustr ''sku''))) 1
                          (call_region cfg akv) (call_currency cfg akv) = Inr res
                    \<longrightarrow> (\<exists>price monthly.
                          res = estimate_ok (py_str rt (dict_get akv (ustr ''sku''))) 1 price monthly))
              \<and> (\<forall>ikv pq monthly.
                    item = JObj ikv \<and> py_mul rt (unit_price_of ikv) (JInt 1) = Inr pq
                    \<and> py_mul rt pq (JInt 730) = Inr monthly
                    \<longrightarrow> cost_estimate rt cfg ev (py_str rt (dict_get akv (ustr ''sku''))) 1
                          (call_region cfg akv) (call_currency cfg akv)
                        = Inr (estimate_ok (py_str rt (dict_get akv (ustr ''sku''))) 1
                                 (unit_price_of ikv) monthly)
                      \<and> handle rt cfg ev msg out
                        = mcp_write rt
                            (mcp_result rid
                               (estimate_ok (py_str rt (dict_get akv (ustr ''sku''))) 1
                                  (unit_price_of ikv) monthly)) out))"
proof -
  let ?sku = "py_str rt (dict_get akv (ustr ''sku''))"
  let ?ce = "cost_estimate rt cfg ev ?sku 1 (call_region cfg akv) (call_currency cfg akv)"
  have q: "py_int rt (case map_of akv (ustr ''quantity'') of Some v \<Rightarrow> v | None \<Rightarrow> JInt 1) = Some 1"
    using assms(3) by (simp add: py_int_def)
  have h: "handle rt cfg ev msg out
           = (case ?ce of
                Inr res \<Rightarrow> mcp_write rt (mcp_result rid res) out
              | Inl e \<Rightarrow> mcp_write rt (server_error rid e) out)"
    using assms(1,2) q by (rule handle_cost_estimate_call)
  have r: "\<exists>r. handle rt cfg ev msg out = mcp_write rt r out
              \<and> (\<forall>m. r \<noteq> mcp_error rid (- 32602) m)"
  proof (cases ?ce)
    case (Inl e)
    with h have "handle rt cfg ev msg out = mcp_write rt (server_error rid e) out" by simp
    with response_neq(2) show ?thesis by blast
  next
    case (Inr res)
    with h have "handle rt cfg ev msg out = mcp_write rt (mcp_result rid res) out" by simp
    with response_neq(1) show ?thesis by blast
  qed
  have f: "(\<forall>res. ?ce = Inr res \<longrightarrow> (\<exists>price monthly. res = estimate_ok ?sku 1 price monthly))
         \<and> (\<forall>ikv pq monthly.
               item = JObj ikv \<and> py_mul rt (unit_price_of ikv) (JInt 1) = Inr pq
               \<and> py_mul rt pq (JInt 730) = Inr monthly
               \<longrightarrow> ?ce = Inr (estimate_ok ?sku 1 (unit_price_of ikv) monthly)
                 \<and> handle rt cfg ev msg out
                   = mcp_write rt (mcp_result rid (estimate_ok ?sku 1 (unit_price_of ikv) monthly)) out)"
    if u: "strip ?sku \<noteq> [] \<and> length ?sku \<le> 200
         \<and> returned (fetch_prices cfg ev
              (filter_expr_of rt ?sku (call_region cfg akv) (call_currency cfg akv))) = Inr (JObj data)
         \<and> map_of data (ustr ''Items'') = Some (JArr (item # rest))"
    for data item rest
  proof (intro conjI allI impI)
    fix res assume "?ce = Inr res"
    with u show "\<exists>price monthly. res = estimate_ok ?sku 1 price monthly"
      by (elim conjE) (rule cost_estimate_found_shape)
  next
    fix ikv pq monthly
    assume m: "item = JObj ikv \<and> py_mul rt (unit_price_of ikv) (JInt 1) = Inr pq
               \<and> py_mul rt pq (JInt 730) = Inr monthly"
    with u have c: "?ce = Inr (estimate_ok ?sku 1 (unit_price_of ikv) monthly)"
      by (elim conjE) (rule cost_estimate_found, simp_all)
    then show "?ce = Inr (estimate_ok ?sku 1 (unit_price_of ikv) monthly)" .
    from h c show "handle rt cfg ev msg out
        = mcp_write rt (mcp_result rid (estimate_ok ?sku 1 (unit_price_of ikv) monthly)) out"
      by simp
  qed
  from h r cost_estimate_shape f show ?thesis by blast
qed

text \<open>
  The request for sku \<open>B2s\<close> without quantity against an upstream returning one item of
  price 2, with the text serialiser: the frame written holds quantity 1 and differs from
  the frames of both invalid-params errors.
\<close>

theorem cost_estimate_default_quantity_witness:
  "tool_call_parts (b2s_request ''cost_estimate'')
     = Some (JInt 1, JStr (ustr ''cost_estimate''), [(ustr ''sku'', JStr (ustr ''B2s''))])
   \<and> map_of [(ustr ''sku'', JStr (ustr ''B2s''))] (ustr ''quantity'') = None
   \<and> cost_estimate text_runtime default_config
        (upstream_items [JObj [(ustr ''retailPrice'', JInt 2)]]) (ustr ''B2s'') 1 JNull JNull
       = Inr (estimate_ok (ustr ''B2s'') 1 (JInt 2) (JInt 1460))
   \<and> handle text_runtime default_config (upstream_items [JObj [(ustr ''retailPrice'', JInt 2)]])
        (b2s_request ''cost_estimate'') []
       = mcp_write text_runtime
           (mcp_result (JInt 1) (estimate_ok (ustr ''B2s'') 1 (JInt 2) (JInt 1460))) []
   \<and> handle text_runtime default_config (upstream_items [JObj [(ustr ''retailPrice'', JInt 2)]])
        (b2s_request ''cost_estimate'') []
       \<noteq> mcp_write text_runtime
           (mcp_error (JInt 1) (- 32602) (ustr ''quantity must be an integer'')) []
   \<and> handle text_runtime default_config (upstream_items [JObj [(ustr ''retailPrice'', JInt 2)]])
        (b2s_request ''cost_estimate'') []
       \<noteq> mcp_write text_runtime
           (mcp_error (JInt 1) (- 32602) (ustr ''Missing required argument: sku'')) []"
proof -
  let ?akv = "[(ustr ''sku'', JStr (ustr ''B2s''))]"
  let ?ikv = "[(ustr ''retailPrice'', JInt 2)]"
  let ?ev = "upstream_items [JObj ?ikv]"
  let ?ok = "estimate_ok (ustr ''B2s'') 1 (JInt 2) (JInt 1460)"
  let ?h = "handle text_runtime default_config ?ev (b2s_request ''cost_estimate'') []"
  have p: "tool_call_parts (b2s_request ''cost_estimate'')
           = Some (JInt 1, JStr (ustr ''cost_estimate''), ?akv)"
    by (rule b2s_request_parts)
  have tr: "truthy (dict_get ?akv (ustr ''sku''))"
    by (simp add: dict_get_def ustr_def)
  have nq: "map_of ?akv (ustr ''quantity'') = None"
    by (simp add: ustr_def)
  have reg: "call_region default_config ?akv = JNull" "call_currency default_config ?akv = JNull"
    by (simp_all add: call_region_def call_currency_def dict_get_def ustr_def or_else_def
                      env_default_def default_config_def)
  have sku: "py_str text_runtime (dict_get ?akv (ustr ''sku'')) = ustr ''B2s''"
    by (simp add: b2s_sku py_str_def)
  have up: "unit_price_of ?ikv = JInt 2"
    by (simp add: unit_price_of_def or_else_def)
  have m1: "py_mul text_runtime (unit_price_of ?ikv) (JInt 1) = Inr (JInt 2)"
    by (simp add: up text_runtime_def sample_mul_def)
  have m2: "py_mul text_runtime (JInt 2) (JInt 730) = Inr (JInt 1460)"
    by (simp add: text_runtime_def sample_mul_def)
  have items: "map_of [(ustr ''Items'', JArr [JObj ?ikv])] (ustr ''Items'') = Some (JArr [JObj ?ikv])"
    by simp
  have u: "strip (py_str text_runtime (dict_get ?akv (ustr ''sku''))) \<noteq> []
         \<and> length (py_str text_runtime (dict_get ?akv (ustr ''sku''))) \<le> 200
         \<and> returned (fetch_prices default_config ?ev
              (filter_expr_of text_runtime (py_str text_runtime (dict_get ?akv (ustr ''sku'')))
                 (call_region default_config ?akv) (call_currency default_config ?akv)))
             = Inr (JObj [(ustr ''Items'', JArr [JObj ?ikv])])
         \<and> map_of [(ustr ''Items'', JArr [JObj ?ikv])] (ustr ''Items'') = Some (JArr [JObj ?ikv])"
    using strip_B2s fetch_upstream_items items by (simp only: sku) simp
  have k: "JObj ?ikv = JObj ?ikv \<and> py_mul text_runtime (unit_price_of ?ikv) (JInt 1) = Inr (JInt 2)
           \<and> py_mul text_runtime (JInt 2) (JInt 730) = Inr (JInt 1460)"
    using m1 m2 by simp
  from cost_estimate_default_quantity [OF p tr nq, of text_runtime default_config ?ev "[]"] u k
  have "cost_estimate text_runtime default_config ?ev
          (py_str text_runtime (dict_get ?akv (ustr ''sku''))) 1
          (call_region default_config ?akv) (call_currency default_config ?akv)
        = Inr (estimate_ok (py_str text_runtime (dict_get ?akv (ustr ''sku''))) 1
                 (unit_price_of ?ikv) (JInt 1460))
      \<and> ?h = mcp_write text_runtime
            (mcp_result (JInt 1)
               (estimate_ok (py_str text_runtime (dict_get ?akv (ustr ''sku''))) 1
                  (unit_price_of ?ikv) (JInt 1460))) []"
    by blast
  then have c: "cost_estimate text_runtime default_config ?ev (ustr ''B2s'') 1 JNull JNull = Inr ?ok"
    and h: "?h = mcp_write text_runtime (mcp_result (JInt 1) ?ok) []"
    by (simp_all only: sku reg up)
  have d: "json_dumps text_runtime (mcp_result (JInt 1) ?ok)
           \<noteq> json_dumps text_runtime (mcp_error (JInt 1) (- 32602) m)" for m
    by (simp add: text_runtime_def mcp_result_def mcp_error_def estimate_ok_def quote_bytes_def
                  ustr_def)
  have n: "?h \<noteq> mcp_write text_runtime (mcp_error (JInt 1) (- 32602) m) []" for m
    unfolding h using d by (rule mcp_write_neq)
  from p nq c h n show ?thesis by (intro conjI)
qed

end
